theory Spec2Isabelle
  imports Main "HOL-Library.AList"
begin

section \<open>Documents, errors and the random source\<close>

text \<open>
  The documents built by the \<open>_to_payload\<close> methods of \<open>discord/new_guild.py\<close> are Python
  dictionaries from strings to JSON-like values. A dictionary keeps insertion order, so it
  is an association list; \<open>payload['k'] = v\<close> is \<open>AList.update\<close> (replace in place, or
  append) and a lookup is \<open>map_of\<close>.
\<close>

datatype json =
    JNone
  | JBool bool
  | JInt int
  | JStr string
  | JList "json list"
  | JDict "(string \<times> json) list"

type_synonym payload = "(string \<times> json) list"

datatype error = TypeError | ValueError | AttributeError | IndexError

text \<open>
  \<open>random.randint(a, b)\<close> returns an integer \<open>N\<close> with \<open>a \<le> N \<le> b\<close>. The source of
  randomness is an infinite sequence of raw draws; each call consumes one.
\<close>

type_synonym rng = "nat \<Rightarrow> int"

definition randint :: "int \<Rightarrow> int \<Rightarrow> rng \<Rightarrow> int \<times> rng" where
  "randint a b r = (a + r 0 mod (b - a + 1), \<lambda>n. r (Suc n))"

text \<open>Python's \<open>str\<close> on an integer: its decimal numeral.\<close>

definition digit :: "nat \<Rightarrow> char" where
  "digit d = ''0123456789'' ! d"

function str_nat :: "nat \<Rightarrow> string" where
  "str_nat n = (if n < 10 then [digit n] else str_nat (n div 10) @ [digit (n mod 10)])"
  by pat_completeness auto
termination
  by (relation "measure (\<lambda>n. n)") auto

declare str_nat.simps [simp del]

definition str :: "int \<Rightarrow> string" where
  "str i = (if i < 0 then CHR ''-'' # str_nat (nat (- i)) else str_nat (nat i))"

section \<open>Value objects of the collaborating modules\<close>

text \<open>
  Modelled from the spec: the classes \<open>Colour\<close>, \<open>Permissions\<close>, \<open>SystemChannelFlags\<close>,
  \<open>VerificationLevel\<close>, \<open>NotificationLevel\<close>, \<open>ContentFilter\<close>, \<open>VideoQualityMode\<close>,
  \<open>ForumOrderType\<close> and \<open>ForumLayoutType\<close> are imported from modules that are not part of
  the source file. The spec treats them as opaque value objects with a numeric \<open>.value\<close>
  projection. An object also has a truth value (what \<open>bool(x)\<close> gives, as its class
  defines it), which is all that \<open>if x:\<close> and \<open>x or y\<close> read; it is carried by the object.
\<close>

datatype value_object = ValueObject (value': int) (truth: bool)

type_synonym Colour = value_object
type_synonym Permissions = value_object
type_synonym SystemChannelFlags = value_object
type_synonym VerificationLevel = value_object
type_synonym NotificationLevel = value_object
type_synonym ContentFilter = value_object
type_synonym VideoQualityMode = value_object
type_synonym ForumOrderType = value_object
type_synonym ForumLayoutType = value_object

text \<open>
  Modelled from the spec: \<open>PermissionOverwrite.pair()\<close> (module \<open>permissions\<close>, not part of
  the source file) returns the overwrite's allow and deny permission sets.
\<close>

datatype PermissionOverwrite = PermissionOverwrite (pair: "Permissions \<times> Permissions")

text \<open>
  Modelled from the spec: \<open>ForumTag.to_dict()\<close> and the emoji classes (\<open>_EmojiTag\<close>,
  \<open>PartialEmoji\<close>) are external; an object of these classes is modelled by the document
  its rendering method returns (\<open>t.to_dict()\<close>, resp.
  \<open>e._to_partial()._to_forum_tag_payload()\<close>).
\<close>

datatype ForumTag = ForumTag (to_dict: json)
datatype EmojiTag = EmojiTag (to_forum_tag_payload: json)

text \<open>
  Modelled from the spec: the enumeration \<open>ChannelType\<close> (module \<open>enums\<close>, not part of the
  source file), with one member for each of the spec's five channel kinds: text, voice,
  category, stage and forum. The source names the first four.
\<close>

datatype ChannelType =
    ChannelType_text
  | ChannelType_voice
  | ChannelType_category
  | ChannelType_stage_voice
  | ChannelType_forum

text \<open>
  The constants and functions that the source file takes from other modules and whose
  values it does not fix: the codes of the channel kinds (\<open>ChannelType.x.value\<close>), the
  target kind \<open>abc._Overwrites.ROLE\<close>, \<open>Colour.default()\<close>, the image encoder
  \<open>utils._bytes_to_base64_data\<close> (which may raise) and \<open>PartialEmoji.from_str\<close>. They are
  parameters of the model.
\<close>

record externals =
  ChannelType_value :: "ChannelType \<Rightarrow> int"
  Overwrites_ROLE :: int
  Colour_default :: Colour
  bytes_to_base64_data :: "string \<Rightarrow> error + string"
  PartialEmoji_from_str :: "string \<Rightarrow> EmojiTag"

text \<open>
  A value whose class is tested with \<open>isinstance\<close> before it is used: either an instance
  of the expected class, or an object of some other class.
\<close>

datatype 'a dyn = Instance 'a | Other

section \<open>Roles\<close>

text \<open>\<open>Union[Colour, int]\<close>: a colour argument is a \<open>Colour\<close> object or a plain integer.\<close>

datatype colour_arg = AColour Colour | AnInt int

fun colour_arg_truth :: "colour_arg \<Rightarrow> bool" where
  "colour_arg_truth (AColour c) = truth c"
| "colour_arg_truth (AnInt n) = (n \<noteq> 0)"

text \<open>\<open>x or y\<close> on optional colour arguments: \<open>x\<close> if it is truthy, else \<open>y\<close>.\<close>

fun colour_or :: "colour_arg option \<Rightarrow> colour_arg option \<Rightarrow> colour_arg option" where
  "colour_or None y = y"
| "colour_or (Some c) y = (if colour_arg_truth c then Some c else y)"

record NewRole =
  id :: int
  name :: "string option"
  permissions :: "Permissions option"
  colour :: "colour_arg option"
  hoist :: "bool option"
  mentionable :: "bool option"

definition NewRole_init ::
  "string option \<Rightarrow> Permissions option \<Rightarrow> colour_arg option \<Rightarrow> bool option \<Rightarrow> bool option
    \<Rightarrow> rng \<Rightarrow> NewRole \<times> rng" where
  "NewRole_init name' permissions' colour' hoist' mentionable' r =
     (let (i, r') = randint 0 999999999999 r
      in (\<lparr>NewRole.id = i, NewRole.name = name', NewRole.permissions = permissions',
           NewRole.colour = colour', NewRole.hoist = hoist',
           NewRole.mentionable = mentionable'\<rparr>, r'))"

definition NewRole_to_payload :: "externals \<Rightarrow> NewRole \<Rightarrow> payload" where
  "NewRole_to_payload ext self =
     (let payload = [(''id'', JInt (NewRole.id self))];
          payload = (case NewRole.permissions self of
                       None \<Rightarrow> payload
                     | Some p \<Rightarrow> AList.update ''permissions'' (JStr (str (value' p))) payload);
          actual_colour = (case colour_or (NewRole.colour self) None of
                             None \<Rightarrow> AColour (Colour_default ext)
                           | Some c \<Rightarrow> c);
          payload = (case actual_colour of
                       AnInt n \<Rightarrow> AList.update ''color'' (JInt n) payload
                     | AColour c \<Rightarrow> AList.update ''color'' (JInt (value' c)) payload);
          payload = (case NewRole.hoist self of
                       None \<Rightarrow> payload
                     | Some h \<Rightarrow> AList.update ''hoist'' (JBool h) payload);
          payload = (case NewRole.mentionable self of
                       None \<Rightarrow> payload
                     | Some m \<Rightarrow> AList.update ''mentionable'' (JBool m) payload);
          payload = (case NewRole.name self of
                       None \<Rightarrow> payload
                     | Some n \<Rightarrow> AList.update ''name'' (JStr n) payload)
      in payload)"

section \<open>Channels\<close>

text \<open>
  The keys of an overwrites dictionary are arbitrary Python objects, and the serializer
  reads \<open>target.id\<close> before it tests \<open>isinstance(target, NewRole)\<close>: a key is a role, some
  other object that has an \<open>id\<close> attribute (a channel, say), or an object without one
  (a string, say).
\<close>

datatype target = RoleTarget NewRole | IdTarget int | PlainTarget

fun target_id :: "target \<Rightarrow> error + int" where
  "target_id (RoleTarget r) = Inr (NewRole.id r)"
| "target_id (IdTarget i) = Inr i"
| "target_id PlainTarget = Inl AttributeError"

fun isinstance_NewRole :: "target \<Rightarrow> bool" where
  "isinstance_NewRole (RoleTarget r) = True"
| "isinstance_NewRole _ = False"

text \<open>
  The \<open>overwrites\<close> argument is tested with \<open>isinstance(_, Mapping)\<close>; a mapping is the
  list of its items in insertion order.
\<close>

type_synonym overwrites_items = "(target \<times> PermissionOverwrite dyn) list"

type_synonym guild_ref = nat

text \<open>
  A channel refers to its guild (a mutable object) by reference and to its category by
  the category object, which is never mutated after its creation. \<open>NewCategory\<close> adds no
  field to \<open>NewGuildChannel\<close>; the other subclasses hold the fields of the base class in
  \<open>base\<close>.
\<close>

datatype NewGuildChannel = NewGuildChannel
  (id: int)
  (name: string)
  (guild: guild_ref)
  (type: ChannelType)
  (category: "NewGuildChannel option")
  (overwrites: "overwrites_items dyn option")

type_synonym NewCategory = NewGuildChannel

definition NewGuildChannel_init ::
  "string \<Rightarrow> ChannelType \<Rightarrow> NewCategory option \<Rightarrow> overwrites_items dyn option \<Rightarrow> guild_ref
    \<Rightarrow> rng \<Rightarrow> NewGuildChannel \<times> rng" where
  "NewGuildChannel_init name' type' category' overwrites' guild' r =
     (let (i, r') = randint 0 999999999999 r
      in (NewGuildChannel i name' guild' type' category' overwrites', r'))"

text \<open>The loop \<open>for target, perm in overwrites.items()\<close>, with the list \<open>perms\<close> it grows.\<close>

fun overwrites_loop ::
  "externals \<Rightarrow> json list \<Rightarrow> overwrites_items \<Rightarrow> error + json list" where
  "overwrites_loop ext perms [] = Inr perms"
| "overwrites_loop ext perms ((target, perm) # items) =
     (case perm of
        Other \<Rightarrow> Inl TypeError
      | Instance p \<Rightarrow>
          (let (allow, deny) = pair p
           in case target_id target of
                Inl e \<Rightarrow> Inl e
              | Inr tid \<Rightarrow>
                  (let overwrites_payload =
                         JDict [(''allow'', JInt (value' allow)), (''deny'', JInt (value' deny)),
                                (''id'', JInt tid), (''type'', JInt (Overwrites_ROLE ext))]
                   in if \<not> isinstance_NewRole target then Inl TypeError
                      else overwrites_loop ext (perms @ [overwrites_payload]) items)))"

definition NewGuildChannel_to_payload :: "externals \<Rightarrow> NewGuildChannel \<Rightarrow> error + payload" where
  "NewGuildChannel_to_payload ext self =
     (let payload = [(''id'', JInt (NewGuildChannel.id self)),
                     (''name'', JStr (NewGuildChannel.name self)),
                     (''type'', JInt (ChannelType_value ext (NewGuildChannel.type self)))]
      in case (case NewGuildChannel.overwrites self of
                 None \<Rightarrow> Inr []
               | Some Other \<Rightarrow> Inl TypeError
               | Some (Instance items) \<Rightarrow> Inr items) of
           Inl e \<Rightarrow> Inl e
         | Inr overwrites' \<Rightarrow>
             (case overwrites_loop ext [] overwrites' of
                Inl e \<Rightarrow> Inl e
              | Inr perms \<Rightarrow>
                  (let payload = (if perms \<noteq> []
                                  then AList.update ''permission_overwrites'' (JList perms) payload
                                  else payload);
                       payload = (case NewGuildChannel.category self of
                                    None \<Rightarrow> payload
                                  | Some c \<Rightarrow>
                                      AList.update ''parent_id'' (JInt (NewGuildChannel.id c)) payload)
                   in Inr payload)))"

text \<open>
  \<open>NewTextChannel\<close>: the constructor passes \<open>type=ChannelType.text\<close> to the base class;
  \<open>_to_payload\<close> extends the document of the base class.
\<close>

datatype NewTextChannel = NewTextChannel
  (base: NewGuildChannel)
  (topic: "string option")
  (slowmode_delay: "int option")
  (nsfw: "bool option")
  (default_auto_archive_duration: "int option")
  (default_thread_slowmode_delay: "int option")

definition NewTextChannel_init ::
  "string option \<Rightarrow> int option \<Rightarrow> bool option \<Rightarrow> int option \<Rightarrow> int option
    \<Rightarrow> string \<Rightarrow> NewCategory option \<Rightarrow> overwrites_items dyn option \<Rightarrow> guild_ref
    \<Rightarrow> rng \<Rightarrow> NewTextChannel \<times> rng" where
  "NewTextChannel_init topic' slowmode_delay' nsfw' default_auto_archive_duration'
       default_thread_slowmode_delay' name' category' overwrites' guild' r =
     (let (b, r') = NewGuildChannel_init name' ChannelType_text category' overwrites' guild' r
      in (NewTextChannel b topic' slowmode_delay' nsfw' default_auto_archive_duration'
            default_thread_slowmode_delay', r'))"

definition NewTextChannel_to_payload :: "externals \<Rightarrow> NewTextChannel \<Rightarrow> error + payload" where
  "NewTextChannel_to_payload ext self =
     (case NewGuildChannel_to_payload ext (NewTextChannel.base self) of
        Inl e \<Rightarrow> Inl e
      | Inr payload \<Rightarrow>
          (let payload = (case NewTextChannel.topic self of
                            None \<Rightarrow> payload
                          | Some t \<Rightarrow> AList.update ''topic'' (JStr t) payload);
               payload = (case NewTextChannel.slowmode_delay self of
                            None \<Rightarrow> payload
                          | Some d \<Rightarrow> AList.update ''rate_limit_per_user'' (JInt d) payload);
               payload = (case NewTextChannel.nsfw self of
                            None \<Rightarrow> payload
                          | Some b \<Rightarrow> AList.update ''nsfw'' (JBool b) payload);
               payload = (case NewTextChannel.default_auto_archive_duration self of
                            None \<Rightarrow> payload
                          | Some d \<Rightarrow>
                              AList.update ''default_auto_archive_duration'' (JInt d) payload);
               payload = (case NewTextChannel.default_thread_slowmode_delay self of
                            None \<Rightarrow> payload
                          | Some d \<Rightarrow>
                              AList.update ''default_thread_rate_limit_per_user'' (JInt d) payload)
           in Inr payload))"

text \<open>\<open>NewVoiceChannel\<close> and \<open>NewStageChannel\<close> have the same fields and the same rendering.\<close>

datatype NewVoiceChannel = NewVoiceChannel
  (base: NewGuildChannel)
  (bitrate: "int option")
  (user_limit: "int option")
  (rtc_region: "string option")
  (video_quality_mode: "VideoQualityMode dyn option")

definition NewVoiceChannel_init ::
  "int option \<Rightarrow> int option \<Rightarrow> string option \<Rightarrow> VideoQualityMode dyn option
    \<Rightarrow> string \<Rightarrow> NewCategory option \<Rightarrow> overwrites_items dyn option \<Rightarrow> guild_ref
    \<Rightarrow> rng \<Rightarrow> NewVoiceChannel \<times> rng" where
  "NewVoiceChannel_init bitrate' user_limit' rtc_region' video_quality_mode'
       name' category' overwrites' guild' r =
     (let (b, r') = NewGuildChannel_init name' ChannelType_voice category' overwrites' guild' r
      in (NewVoiceChannel b bitrate' user_limit' rtc_region' video_quality_mode', r'))"

definition NewVoiceChannel_to_payload :: "externals \<Rightarrow> NewVoiceChannel \<Rightarrow> error + payload" where
  "NewVoiceChannel_to_payload ext self =
     (case NewGuildChannel_to_payload ext (NewVoiceChannel.base self) of
        Inl e \<Rightarrow> Inl e
      | Inr payload \<Rightarrow>
          (let payload = (case NewVoiceChannel.bitrate self of
                            None \<Rightarrow> payload
                          | Some b \<Rightarrow> AList.update ''bitrate'' (JInt b) payload);
               payload = (case NewVoiceChannel.user_limit self of
                            None \<Rightarrow> payload
                          | Some u \<Rightarrow> AList.update ''user_limit'' (JInt u) payload);
               payload = (case NewVoiceChannel.rtc_region self of
                            None \<Rightarrow> payload
                          | Some g \<Rightarrow> AList.update ''rtc_region'' (JStr g) payload)
           in case NewVoiceChannel.video_quality_mode self of
                None \<Rightarrow> Inr payload
              | Some Other \<Rightarrow> Inl TypeError
              | Some (Instance m) \<Rightarrow>
                  Inr (AList.update ''video_quality_mode'' (JInt (value' m)) payload)))"

datatype NewStageChannel = NewStageChannel
  (base: NewGuildChannel)
  (bitrate: "int option")
  (user_limit: "int option")
  (rtc_region: "string option")
  (video_quality_mode: "VideoQualityMode dyn option")

definition NewStageChannel_init ::
  "int option \<Rightarrow> int option \<Rightarrow> string option \<Rightarrow> VideoQualityMode dyn option
    \<Rightarrow> string \<Rightarrow> NewCategory option \<Rightarrow> overwrites_items dyn option \<Rightarrow> guild_ref
    \<Rightarrow> rng \<Rightarrow> NewStageChannel \<times> rng" where
  "NewStageChannel_init bitrate' user_limit' rtc_region' video_quality_mode'
       name' category' overwrites' guild' r =
     (let (b, r') = NewGuildChannel_init name' ChannelType_stage_voice category' overwrites'
                      guild' r
      in (NewStageChannel b bitrate' user_limit' rtc_region' video_quality_mode', r'))"

definition NewStageChannel_to_payload :: "externals \<Rightarrow> NewStageChannel \<Rightarrow> error + payload" where
  "NewStageChannel_to_payload ext self =
     (case NewGuildChannel_to_payload ext (NewStageChannel.base self) of
        Inl e \<Rightarrow> Inl e
      | Inr payload \<Rightarrow>
          (let payload = (case NewStageChannel.bitrate self of
                            None \<Rightarrow> payload
                          | Some b \<Rightarrow> AList.update ''bitrate'' (JInt b) payload);
               payload = (case NewStageChannel.user_limit self of
                            None \<Rightarrow> payload
                          | Some u \<Rightarrow> AList.update ''user_limit'' (JInt u) payload);
               payload = (case NewStageChannel.rtc_region self of
                            None \<Rightarrow> payload
                          | Some g \<Rightarrow> AList.update ''rtc_region'' (JStr g) payload)
           in case NewStageChannel.video_quality_mode self of
                None \<Rightarrow> Inr payload
              | Some Other \<Rightarrow> Inl TypeError
              | Some (Instance m) \<Rightarrow>
                  Inr (AList.update ''video_quality_mode'' (JInt (value' m)) payload)))"

text \<open>\<open>NewCategory.__init__\<close>: a base channel of kind \<open>category\<close> without a parent.\<close>

definition NewCategory_init ::
  "string \<Rightarrow> overwrites_items dyn option \<Rightarrow> guild_ref \<Rightarrow> rng \<Rightarrow> NewCategory \<times> rng" where
  "NewCategory_init name' overwrites' guild' r =
     NewGuildChannel_init name' ChannelType_category None overwrites' guild' r"

text \<open>
  \<open>NewForum\<close>. Its constructor passes \<open>type=ChannelType.text\<close> to the base class, as the
  source has it. \<open>default_reaction_emoji\<close> is an emoji object, a string, or anything else.
\<close>

datatype emoji_input = EmojiObject EmojiTag | EmojiStr string | EmojiOther

datatype NewForum = NewForum
  (base: NewGuildChannel)
  (topic: "string option")
  (slowmode_delay: "int option")
  (nsfw: "bool option")
  (default_auto_archive_duration: "int option")
  (default_thread_slowmode_delay: "int option")
  (default_sort_order: "ForumOrderType dyn option")
  (default_reaction_emoji: "emoji_input option")
  (default_layout: "ForumLayoutType dyn option")
  (available_tags: "ForumTag list option")

definition NewForum_init ::
  "string option \<Rightarrow> int option \<Rightarrow> bool option \<Rightarrow> int option \<Rightarrow> int option
    \<Rightarrow> ForumOrderType dyn option \<Rightarrow> emoji_input option \<Rightarrow> ForumLayoutType dyn option
    \<Rightarrow> ForumTag list option
    \<Rightarrow> string \<Rightarrow> NewCategory option \<Rightarrow> overwrites_items dyn option \<Rightarrow> guild_ref
    \<Rightarrow> rng \<Rightarrow> NewForum \<times> rng" where
  "NewForum_init topic' slowmode_delay' nsfw' default_auto_archive_duration'
       default_thread_slowmode_delay' default_sort_order' default_reaction_emoji'
       default_layout' available_tags' name' category' overwrites' guild' r =
     (let (b, r') = NewGuildChannel_init name' ChannelType_text category' overwrites' guild' r
      in (NewForum b topic' slowmode_delay' nsfw' default_auto_archive_duration'
            default_thread_slowmode_delay' default_sort_order' default_reaction_emoji'
            default_layout' available_tags', r'))"

definition NewForum_to_payload :: "externals \<Rightarrow> NewForum \<Rightarrow> error + payload" where
  "NewForum_to_payload ext self =
     (case NewGuildChannel_to_payload ext (NewForum.base self) of
        Inl e \<Rightarrow> Inl e
      | Inr payload \<Rightarrow>
          (let payload = (case NewForum.topic self of
                            None \<Rightarrow> payload
                          | Some t \<Rightarrow> AList.update ''topic'' (JStr t) payload);
               payload = (case NewForum.slowmode_delay self of
                            None \<Rightarrow> payload
                          | Some d \<Rightarrow> AList.update ''rate_limit_per_user'' (JInt d) payload);
               payload = (case NewForum.nsfw self of
                            None \<Rightarrow> payload
                          | Some b \<Rightarrow> AList.update ''nsfw'' (JBool b) payload);
               payload = (case NewForum.default_auto_archive_duration self of
                            None \<Rightarrow> payload
                          | Some d \<Rightarrow>
                              AList.update ''default_auto_archive_duration'' (JInt d) payload);
               payload = (case NewForum.default_thread_slowmode_delay self of
                            None \<Rightarrow> payload
                          | Some d \<Rightarrow>
                              AList.update ''default_thread_rate_limit_per_user'' (JInt d) payload)
           in case (case NewForum.default_sort_order self of
                      None \<Rightarrow> Inr payload
                    | Some Other \<Rightarrow> Inl TypeError
                    | Some (Instance so) \<Rightarrow>
                        Inr (AList.update ''default_sort_order'' (JInt (value' so)) payload)) of
                Inl e \<Rightarrow> Inl e
              | Inr payload \<Rightarrow>
             (case (case NewForum.default_reaction_emoji self of
                      None \<Rightarrow> Inr payload
                    | Some (EmojiObject em) \<Rightarrow>
                        Inr (AList.update ''default_reaction_emoji'' (to_forum_tag_payload em)
                               payload)
                    | Some (EmojiStr s) \<Rightarrow>
                        Inr (AList.update ''default_reaction_emoji''
                               (to_forum_tag_payload (PartialEmoji_from_str ext s)) payload)
                    | Some EmojiOther \<Rightarrow> Inl ValueError) of
                Inl e \<Rightarrow> Inl e
              | Inr payload \<Rightarrow>
             (case (case NewForum.default_layout self of
                      None \<Rightarrow> Inr payload
                    | Some Other \<Rightarrow> Inl TypeError
                    | Some (Instance l) \<Rightarrow>
                        Inr (AList.update ''default_forum_layout'' (JInt (value' l)) payload)) of
                Inl e \<Rightarrow> Inl e
              | Inr payload \<Rightarrow>
                  (case NewForum.available_tags self of
                     None \<Rightarrow> Inr payload
                   | Some ts \<Rightarrow>
                       Inr (AList.update ''available_tags'' (JList (map to_dict ts))
                              payload))))))"

text \<open>
  The graph's \<open>channels\<close> list holds channels of every class; \<open>channel._to_payload()\<close>
  dispatches on the class of the object.
\<close>

datatype channel =
    TextChannel NewTextChannel
  | VoiceChannel NewVoiceChannel
  | StageChannel NewStageChannel
  | Category NewCategory
  | Forum NewForum

fun channel_to_payload :: "externals \<Rightarrow> channel \<Rightarrow> error + payload" where
  "channel_to_payload ext (TextChannel c) = NewTextChannel_to_payload ext c"
| "channel_to_payload ext (VoiceChannel c) = NewVoiceChannel_to_payload ext c"
| "channel_to_payload ext (StageChannel c) = NewStageChannel_to_payload ext c"
| "channel_to_payload ext (Category c) = NewGuildChannel_to_payload ext c"
| "channel_to_payload ext (Forum c) = NewForum_to_payload ext c"

fun channel_base :: "channel \<Rightarrow> NewGuildChannel" where
  "channel_base (TextChannel c) = NewTextChannel.base c"
| "channel_base (VoiceChannel c) = NewVoiceChannel.base c"
| "channel_base (StageChannel c) = NewStageChannel.base c"
| "channel_base (Category c) = c"
| "channel_base (Forum c) = NewForum.base c"

text \<open>
  The comprehension \<open>[channel._to_payload() for channel in self.channels]\<close>: the documents
  in order, or the first exception raised.
\<close>

fun payloads :: "('a \<Rightarrow> error + payload) \<Rightarrow> 'a list \<Rightarrow> error + json list" where
  "payloads f [] = Inr []"
| "payloads f (x # xs) =
     (case f x of
        Inl e \<Rightarrow> Inl e
      | Inr d \<Rightarrow> (case payloads f xs of Inl e \<Rightarrow> Inl e | Inr ds \<Rightarrow> Inr (JDict d # ds)))"

section \<open>The guild staging graph\<close>

text \<open>The \<open>_state\<close> field (the connection used for submission) plays no part in serialization.\<close>

record NewGuild =
  name :: string
  icon :: "string option"
  afk_timeout :: "int option"
  verification_level :: "VerificationLevel option"
  notification_level :: "NotificationLevel option"
  content_filter :: "ContentFilter option"
  system_channel_flags :: "SystemChannelFlags option"
  roles :: "NewRole list"
  channels :: "channel list"
  afk_channel_id :: "int option"
  system_channel_id :: "int option"

definition NewGuild_init ::
  "string \<Rightarrow> string option \<Rightarrow> int option \<Rightarrow> VerificationLevel option
    \<Rightarrow> NotificationLevel option \<Rightarrow> ContentFilter option \<Rightarrow> SystemChannelFlags option
    \<Rightarrow> NewGuild" where
  "NewGuild_init name' icon' afk_timeout' verification_level' notification_level'
       content_filter' system_channel_flags' =
     \<lparr>NewGuild.name = name', icon = icon', afk_timeout = afk_timeout',
      verification_level = verification_level', notification_level = notification_level',
      content_filter = content_filter', system_channel_flags = system_channel_flags',
      roles = [], channels = [], afk_channel_id = None, system_channel_id = None\<rparr>"

text \<open>
  The property \<open>default_role\<close> and the method \<open>add_role\<close> call each other: \<open>add_role\<close>
  reads \<open>self.default_role\<close> when no role exists and the name is not \<open>'@everyone'\<close>, and
  \<open>default_role\<close> calls \<open>add_role(name='@everyone')\<close> when no role exists. \<open>self.roles[0]\<close>
  raises \<open>IndexError\<close> on an empty list. Both return the updated graph and random source.
\<close>

function NewGuild_default_role ::
    "NewGuild \<Rightarrow> rng \<Rightarrow> error + (NewRole \<times> NewGuild \<times> rng)"
  and NewGuild_add_role ::
    "string \<Rightarrow> Permissions option \<Rightarrow> colour_arg option \<Rightarrow> colour_arg option \<Rightarrow> bool option
      \<Rightarrow> bool option \<Rightarrow> NewGuild \<Rightarrow> rng \<Rightarrow> error + (NewRole \<times> NewGuild \<times> rng)" where
  "NewGuild_default_role self r =
     (case (if roles self = []
            then (case NewGuild_add_role ''@everyone'' None None None None None self r of
                    Inl e \<Rightarrow> Inl e
                  | Inr (_, self', r') \<Rightarrow> Inr (self', r'))
            else Inr (self, r)) of
        Inl e \<Rightarrow> Inl e
      | Inr (self', r') \<Rightarrow>
          (case roles self' of
             [] \<Rightarrow> Inl IndexError
           | role # _ \<Rightarrow> Inr (role, self', r')))"
| "NewGuild_add_role name' permissions' color' colour' hoist' mentionable' self r =
     (case (if roles self = [] \<and> name' \<noteq> ''@everyone''
            then (case NewGuild_default_role self r of
                    Inl e \<Rightarrow> Inl e
                  | Inr (_, self', r') \<Rightarrow> Inr (self', r'))
            else Inr (self, r)) of
        Inl e \<Rightarrow> Inl e
      | Inr (self', r') \<Rightarrow>
          (let (role, r'') = NewRole_init (Some name') permissions' (colour_or color' colour')
                               hoist' mentionable' r'
           in Inr (role, self'\<lparr>roles := roles self' @ [role]\<rparr>, r'')))"
  by pat_completeness auto
termination
  by (relation "measure (\<lambda>x. case x of
         Inl (self, r) \<Rightarrow> 1
       | Inr (name', permissions', color', colour', hoist', mentionable', self, r) \<Rightarrow>
           (if roles self = [] \<and> name' \<noteq> ''@everyone'' then 2 else 0))") auto

declare NewGuild_default_role.simps [simp del] NewGuild_add_role.simps [simp del]

text \<open>
  The channel builders. \<open>self_ref\<close> is the reference to the graph object itself
  (\<open>guild=self\<close>); \<open>self\<close> is its state.
\<close>

definition NewGuild_add_text_channel ::
  "guild_ref \<Rightarrow> string \<Rightarrow> NewCategory option \<Rightarrow> string option \<Rightarrow> int option \<Rightarrow> bool option
    \<Rightarrow> overwrites_items dyn option \<Rightarrow> int option \<Rightarrow> int option \<Rightarrow> bool
    \<Rightarrow> NewGuild \<Rightarrow> rng \<Rightarrow> NewTextChannel \<times> NewGuild \<times> rng" where
  "NewGuild_add_text_channel self_ref name' category' topic' slowmode_delay' nsfw' overwrites'
       default_auto_archive_duration' default_thread_slowmode_delay' is_system_channel self r =
     (let (channel, r') = NewTextChannel_init topic' slowmode_delay' nsfw'
                            default_auto_archive_duration' default_thread_slowmode_delay'
                            name' category' overwrites' self_ref r;
          self = self\<lparr>channels := channels self @ [TextChannel channel]\<rparr>;
          self = (if is_system_channel
                  then self\<lparr>system_channel_id :=
                              Some (NewGuildChannel.id (NewTextChannel.base channel))\<rparr>
                  else self)
      in (channel, self, r'))"

definition NewGuild_add_voice_channel ::
  "guild_ref \<Rightarrow> string \<Rightarrow> NewCategory option \<Rightarrow> int option \<Rightarrow> int option \<Rightarrow> string option
    \<Rightarrow> VideoQualityMode dyn option \<Rightarrow> overwrites_items dyn option \<Rightarrow> bool
    \<Rightarrow> NewGuild \<Rightarrow> rng \<Rightarrow> NewVoiceChannel \<times> NewGuild \<times> rng" where
  "NewGuild_add_voice_channel self_ref name' category' bitrate' user_limit' rtc_region'
       video_quality_mode' overwrites' is_afk_channel self r =
     (let (channel, r') = NewVoiceChannel_init bitrate' user_limit' rtc_region'
                            video_quality_mode' name' category' overwrites' self_ref r;
          self = self\<lparr>channels := channels self @ [VoiceChannel channel]\<rparr>;
          self = (if is_afk_channel
                  then self\<lparr>afk_channel_id :=
                              Some (NewGuildChannel.id (NewVoiceChannel.base channel))\<rparr>
                  else self)
      in (channel, self, r'))"

definition NewGuild_add_stage_channel ::
  "guild_ref \<Rightarrow> string \<Rightarrow> NewCategory option \<Rightarrow> int option \<Rightarrow> int option \<Rightarrow> string option
    \<Rightarrow> VideoQualityMode dyn option \<Rightarrow> overwrites_items dyn option
    \<Rightarrow> NewGuild \<Rightarrow> rng \<Rightarrow> NewStageChannel \<times> NewGuild \<times> rng" where
  "NewGuild_add_stage_channel self_ref name' category' bitrate' user_limit' rtc_region'
       video_quality_mode' overwrites' self r =
     (let (channel, r') = NewStageChannel_init bitrate' user_limit' rtc_region'
                            video_quality_mode' name' category' overwrites' self_ref r;
          self = self\<lparr>channels := channels self @ [StageChannel channel]\<rparr>
      in (channel, self, r'))"

definition NewGuild_add_category ::
  "guild_ref \<Rightarrow> string \<Rightarrow> overwrites_items dyn option
    \<Rightarrow> NewGuild \<Rightarrow> rng \<Rightarrow> NewCategory \<times> NewGuild \<times> rng" where
  "NewGuild_add_category self_ref name' overwrites' self r =
     (let (channel, r') = NewCategory_init name' overwrites' self_ref r;
          self = self\<lparr>channels := channels self @ [Category channel]\<rparr>
      in (channel, self, r'))"

definition NewGuild_add_forum ::
  "guild_ref \<Rightarrow> string \<Rightarrow> string option \<Rightarrow> NewCategory option \<Rightarrow> int option \<Rightarrow> bool option
    \<Rightarrow> overwrites_items dyn option \<Rightarrow> int option \<Rightarrow> int option
    \<Rightarrow> ForumOrderType dyn option \<Rightarrow> emoji_input option \<Rightarrow> ForumLayoutType dyn option
    \<Rightarrow> ForumTag list option
    \<Rightarrow> NewGuild \<Rightarrow> rng \<Rightarrow> NewForum \<times> NewGuild \<times> rng" where
  "NewGuild_add_forum self_ref name' topic' category' slowmode_delay' nsfw' overwrites'
       default_auto_archive_duration' default_thread_slowmode_delay' default_sort_order'
       default_reaction_emoji' default_layout' available_tags' self r =
     (let (channel, r') = NewForum_init topic' slowmode_delay' nsfw'
                            default_auto_archive_duration' default_thread_slowmode_delay'
                            default_sort_order' default_reaction_emoji' default_layout'
                            available_tags' name' category' overwrites' self_ref r;
          self = self\<lparr>channels := channels self @ [Forum channel]\<rparr>
      in (channel, self, r'))"

text \<open>
  \<open>NewGuild._to_payload\<close>. \<open>if x:\<close> on an optional value is false for \<open>None\<close>, for empty
  bytes, for the integer 0 and for an object whose truth value is false.
\<close>

definition NewGuild_to_payload :: "externals \<Rightarrow> NewGuild \<Rightarrow> error + payload" where
  "NewGuild_to_payload ext self =
     (let payload = [(''name'', JStr (NewGuild.name self))]
      in case (case icon self of
                 None \<Rightarrow> Inr payload
               | Some bs \<Rightarrow>
                   (if bs \<noteq> []
                    then (case bytes_to_base64_data ext bs of
                            Inl e \<Rightarrow> Inl e
                          | Inr d \<Rightarrow> Inr (AList.update ''icon'' (JStr d) payload))
                    else Inr payload)) of
           Inl e \<Rightarrow> Inl e
         | Inr payload \<Rightarrow>
             (let payload = (case afk_timeout self of
                               None \<Rightarrow> payload
                             | Some t \<Rightarrow> AList.update ''afk_timeout'' (JInt t) payload);
                  payload = (case verification_level self of
                               None \<Rightarrow> payload
                             | Some l \<Rightarrow>
                                 (if truth l
                                  then AList.update ''verification_level'' (JInt (value' l)) payload
                                  else payload));
                  payload = (case notification_level self of
                               None \<Rightarrow> payload
                             | Some l \<Rightarrow>
                                 (if truth l
                                  then AList.update ''default_message_notifications''
                                         (JInt (value' l)) payload
                                  else payload));
                  payload = (case content_filter self of
                               None \<Rightarrow> payload
                             | Some l \<Rightarrow>
                                 (if truth l
                                  then AList.update ''explicit_content_filter''
                                         (JInt (value' l)) payload
                                  else payload));
                  payload = (case system_channel_flags self of
                               None \<Rightarrow> payload
                             | Some l \<Rightarrow>
                                 (if truth l
                                  then AList.update ''system_channel_flags''
                                         (JInt (value' l)) payload
                                  else payload));
                  payload = (if roles self \<noteq> []
                             then AList.update ''roles''
                                    (JList (map (\<lambda>role. JDict (NewRole_to_payload ext role))
                                              (roles self))) payload
                             else payload)
              in if channels self \<noteq> []
                 then (case payloads (channel_to_payload ext) (channels self) of
                         Inl e \<Rightarrow> Inl e
                       | Inr ds \<Rightarrow>
                           (let payload = AList.update ''channels'' (JList ds) payload;
                                payload = (case afk_channel_id self of
                                             None \<Rightarrow> payload
                                           | Some i \<Rightarrow>
                                               (if i \<noteq> 0
                                                then AList.update ''afk_channel_id'' (JInt i)
                                                       payload
                                                else payload));
                                payload = (case system_channel_id self of
                                             None \<Rightarrow> payload
                                           | Some i \<Rightarrow>
                                               (if i \<noteq> 0
                                                then AList.update ''system_channel_id'' (JInt i)
                                                       payload
                                                else payload))
                            in Inr payload))
                 else Inr payload))"

section \<open>Categories delegate to their graph\<close>

text \<open>
  A category holds a reference to its graph, a mutable object that lives in a store of
  graph objects. A method call on a reference runs the method on the object found there
  and stores the object's new state.
\<close>

type_synonym store = "guild_ref \<Rightarrow> NewGuild"

definition call_method ::
  "guild_ref \<Rightarrow> (guild_ref \<Rightarrow> NewGuild \<Rightarrow> rng \<Rightarrow> 'a \<times> NewGuild \<times> rng) \<Rightarrow> store \<Rightarrow> rng
    \<Rightarrow> 'a \<times> store \<times> rng" where
  "call_method ref m st r =
     (let (res, g', r') = m ref (st ref) r in (res, st(ref := g'), r'))"

text \<open>
  \<open>NewCategory.add_text_channel(name, **options)\<close> and its siblings:
  \<open>return self.guild.add_x(name, **options, category=self)\<close>. The options are the keyword
  arguments of the graph's operation other than \<open>category\<close>.
\<close>

definition NewCategory_add_text_channel ::
  "NewCategory \<Rightarrow> string \<Rightarrow> string option \<Rightarrow> int option \<Rightarrow> bool option
    \<Rightarrow> overwrites_items dyn option \<Rightarrow> int option \<Rightarrow> int option \<Rightarrow> bool
    \<Rightarrow> store \<Rightarrow> rng \<Rightarrow> NewTextChannel \<times> store \<times> rng" where
  "NewCategory_add_text_channel self name' topic' slowmode_delay' nsfw' overwrites'
       default_auto_archive_duration' default_thread_slowmode_delay' is_system_channel st r =
     call_method (NewGuildChannel.guild self)
       (\<lambda>g. NewGuild_add_text_channel g name' (Some self) topic' slowmode_delay' nsfw'
               overwrites' default_auto_archive_duration' default_thread_slowmode_delay'
               is_system_channel) st r"

definition NewCategory_add_voice_channel ::
  "NewCategory \<Rightarrow> string \<Rightarrow> int option \<Rightarrow> int option \<Rightarrow> string option
    \<Rightarrow> VideoQualityMode dyn option \<Rightarrow> overwrites_items dyn option \<Rightarrow> bool
    \<Rightarrow> store \<Rightarrow> rng \<Rightarrow> NewVoiceChannel \<times> store \<times> rng" where
  "NewCategory_add_voice_channel self name' bitrate' user_limit' rtc_region'
       video_quality_mode' overwrites' is_afk_channel st r =
     call_method (NewGuildChannel.guild self)
       (\<lambda>g. NewGuild_add_voice_channel g name' (Some self) bitrate' user_limit' rtc_region'
               video_quality_mode' overwrites' is_afk_channel) st r"

definition NewCategory_add_stage_channel ::
  "NewCategory \<Rightarrow> string \<Rightarrow> int option \<Rightarrow> int option \<Rightarrow> string option
    \<Rightarrow> VideoQualityMode dyn option \<Rightarrow> overwrites_items dyn option
    \<Rightarrow> store \<Rightarrow> rng \<Rightarrow> NewStageChannel \<times> store \<times> rng" where
  "NewCategory_add_stage_channel self name' bitrate' user_limit' rtc_region'
       video_quality_mode' overwrites' st r =
     call_method (NewGuildChannel.guild self)
       (\<lambda>g. NewGuild_add_stage_channel g name' (Some self) bitrate' user_limit' rtc_region'
               video_quality_mode' overwrites') st r"

definition NewCategory_add_forum ::
  "NewCategory \<Rightarrow> string \<Rightarrow> string option \<Rightarrow> int option \<Rightarrow> bool option
    \<Rightarrow> overwrites_items dyn option \<Rightarrow> int option \<Rightarrow> int option
    \<Rightarrow> ForumOrderType dyn option \<Rightarrow> emoji_input option \<Rightarrow> ForumLayoutType dyn option
    \<Rightarrow> ForumTag list option
    \<Rightarrow> store \<Rightarrow> rng \<Rightarrow> NewForum \<times> store \<times> rng" where
  "NewCategory_add_forum self name' topic' slowmode_delay' nsfw' overwrites'
       default_auto_archive_duration' default_thread_slowmode_delay' default_sort_order'
       default_reaction_emoji' default_layout' available_tags' st r =
     call_method (NewGuildChannel.guild self)
       (\<lambda>g. NewGuild_add_forum g name' topic' (Some self) slowmode_delay' nsfw' overwrites'
               default_auto_archive_duration' default_thread_slowmode_delay'
               default_sort_order' default_reaction_emoji' default_layout' available_tags')
       st r"

section \<open>Devices for stating and proving the properties\<close>

text \<open>
  An instance of the parameters, for evaluating the model on concrete inputs: the channel
  kind codes and the role target kind are those of the platform's API (text 0, voice 2,
  category 4, stage 13, forum 15; role target 0), the default colour has value 0, and the
  image encoder is a stand-in that accepts every blob.
\<close>

definition sample_externals :: externals where
  "sample_externals =
     \<lparr>ChannelType_value =
        (\<lambda>t. case t of
               ChannelType_text \<Rightarrow> 0
             | ChannelType_voice \<Rightarrow> 2
             | ChannelType_category \<Rightarrow> 4
             | ChannelType_stage_voice \<Rightarrow> 13
             | ChannelType_forum \<Rightarrow> 15),
      Overwrites_ROLE = 0,
      Colour_default = ValueObject 0 True,
      bytes_to_base64_data = (\<lambda>bs. Inr (''data:image/png;base64,'' @ bs)),
      PartialEmoji_from_str = (\<lambda>s. EmojiTag (JDict [(''emoji_name'', JStr s)]))\<rparr>"

text \<open>
  The statement \<open>if c: payload[k] = v\<close> as one step on the document: assign when a value
  is there. The \<open>_to_payload\<close> methods are chains of such steps.
\<close>

definition assign_opt :: "string \<Rightarrow> json option \<Rightarrow> payload \<Rightarrow> payload" where
  "assign_opt k v p = (case v of None \<Rightarrow> p | Some x \<Rightarrow> AList.update k x p)"

text \<open>
  A later addition to a graph: one call of a builder operation with its arguments. The
  entity that the call returns is dropped; the graph and the random source are kept.
\<close>

datatype addition =
    AddRole string "Permissions option" "colour_arg option" "colour_arg option"
      "bool option" "bool option"
  | AddTextChannel string "NewCategory option" "string option" "int option" "bool option"
      "overwrites_items dyn option" "int option" "int option" bool
  | AddVoiceChannel string "NewCategory option" "int option" "int option" "string option"
      "VideoQualityMode dyn option" "overwrites_items dyn option" bool
  | AddStageChannel string "NewCategory option" "int option" "int option" "string option"
      "VideoQualityMode dyn option" "overwrites_items dyn option"
  | AddCategory string "overwrites_items dyn option"
  | AddForum string "string option" "NewCategory option" "int option" "bool option"
      "overwrites_items dyn option" "int option" "int option" "ForumOrderType dyn option"
      "emoji_input option" "ForumLayoutType dyn option" "ForumTag list option"

fun apply_addition :: "guild_ref \<Rightarrow> addition \<Rightarrow> NewGuild \<Rightarrow> rng \<Rightarrow> error + (NewGuild \<times> rng)" where
  "apply_addition ref (AddRole n p c1 c2 h m) g r =
     (case NewGuild_add_role n p c1 c2 h m g r of
        Inl e \<Rightarrow> Inl e
      | Inr (_, g', r') \<Rightarrow> Inr (g', r'))"
| "apply_addition ref (AddTextChannel n c t s f ow a d sys) g r =
     (case NewGuild_add_text_channel ref n c t s f ow a d sys g r of
        (_, g', r') \<Rightarrow> Inr (g', r'))"
| "apply_addition ref (AddVoiceChannel n c b u rr v ow afk) g r =
     (case NewGuild_add_voice_channel ref n c b u rr v ow afk g r of
        (_, g', r') \<Rightarrow> Inr (g', r'))"
| "apply_addition ref (AddStageChannel n c b u rr v ow) g r =
     (case NewGuild_add_stage_channel ref n c b u rr v ow g r of
        (_, g', r') \<Rightarrow> Inr (g', r'))"
| "apply_addition ref (AddCategory n ow) g r =
     (case NewGuild_add_category ref n ow g r of
        (_, g', r') \<Rightarrow> Inr (g', r'))"
| "apply_addition ref (AddForum n t c s f ow a d so em l tags) g r =
     (case NewGuild_add_forum ref n t c s f ow a d so em l tags g r of
        (_, g', r') \<Rightarrow> Inr (g', r'))"

fun apply_additions ::
  "guild_ref \<Rightarrow> addition list \<Rightarrow> NewGuild \<Rightarrow> rng \<Rightarrow> error + (NewGuild \<times> rng)" where
  "apply_additions ref [] g r = Inr (g, r)"
| "apply_additions ref (a # as) g r =
     (case apply_addition ref a g r of
        Inl e \<Rightarrow> Inl e
      | Inr (g', r') \<Rightarrow> apply_additions ref as g' r')"

section \<open>Basic facts\<close>

lemma fold_case_update:
  "(case x of None \<Rightarrow> p | Some t \<Rightarrow> AList.update k (f t) p) = assign_opt k (map_option f x) p"
  by (cases x) (simp_all add: assign_opt_def)

lemma fold_if_update:
  "(if b then AList.update k v p else p) = assign_opt k (if b then Some v else None) p"
  by (simp add: assign_opt_def)

lemma fold_case_if_update:
  "(case x of None \<Rightarrow> p | Some t \<Rightarrow> if c t then AList.update k (f t) p else p)
     = assign_opt k (Option.bind x (\<lambda>t. if c t then Some (f t) else None)) p"
  by (cases x) (simp_all add: assign_opt_def)

lemmas folds = fold_case_update fold_if_update fold_case_if_update

lemma map_of_assign_opt:
  "map_of (assign_opt k v p) k' =
     (if k' = k then (case v of None \<Rightarrow> map_of p k' | Some x \<Rightarrow> Some x) else map_of p k')"
  by (cases v) (simp_all add: assign_opt_def update_conv')

lemma randint_range:
  "a \<le> b \<Longrightarrow> a \<le> fst (randint a b r) \<and> fst (randint a b r) \<le> b"
proof -
  assume "a \<le> b"
  then have pos: "0 < b - a + 1" by simp
  have "0 \<le> r 0 mod (b - a + 1)" and "r 0 mod (b - a + 1) < b - a + 1"
    using pos by (rule pos_mod_sign, rule pos_mod_bound)
  then show ?thesis unfolding randint_def fst_conv by linarith
qed

subsection \<open>Roles of a graph\<close>

lemma NewRole_init_fields:
  "NewRole.name (fst (NewRole_init n p c h m r)) = n"
  "NewRole.permissions (fst (NewRole_init n p c h m r)) = p"
  "NewRole.colour (fst (NewRole_init n p c h m r)) = c"
  "NewRole.hoist (fst (NewRole_init n p c h m r)) = h"
  "NewRole.mentionable (fst (NewRole_init n p c h m r)) = m"
  "NewRole.id (fst (NewRole_init n p c h m r)) = fst (randint 0 999999999999 r)"
  by (simp_all add: NewRole_init_def split_beta)

lemma add_role_append:
  assumes "roles g \<noteq> [] \<or> n = ''@everyone''"
  shows "NewGuild_add_role n p c1 c2 h m g r =
           Inr (fst (NewRole_init (Some n) p (colour_or c1 c2) h m r),
                g\<lparr>roles := roles g @ [fst (NewRole_init (Some n) p (colour_or c1 c2) h m r)]\<rparr>,
                snd (NewRole_init (Some n) p (colour_or c1 c2) h m r))"
  using assms by (auto simp: NewGuild_add_role.simps split_beta)

lemma default_role_empty:
  assumes "roles g = []"
  shows "NewGuild_default_role g r =
           Inr (fst (NewRole_init (Some ''@everyone'') None None None None r),
                g\<lparr>roles := [fst (NewRole_init (Some ''@everyone'') None None None None r)]\<rparr>,
                snd (NewRole_init (Some ''@everyone'') None None None None r))"
  using assms by (simp add: NewGuild_default_role.simps add_role_append)

lemma default_role_nonempty:
  assumes "roles g \<noteq> []"
  shows "NewGuild_default_role g r = Inr (hd (roles g), g, r)"
  using assms by (cases "roles g") (simp_all add: NewGuild_default_role.simps)

lemma add_role_empty:
  assumes "roles g = []" "n \<noteq> ''@everyone''"
  shows "NewGuild_add_role n p c1 c2 h m g r =
           (let d = NewRole_init (Some ''@everyone'') None None None None r;
                x = NewRole_init (Some n) p (colour_or c1 c2) h m (snd d)
            in Inr (fst x, g\<lparr>roles := [fst d, fst x]\<rparr>, snd x))"
  using assms by (simp add: NewGuild_add_role.simps default_role_empty split_beta Let_def)

lemma add_role_total:
  "\<exists>role g' r'. NewGuild_add_role n p c1 c2 h m g r = Inr (role, g', r')
      \<and> NewRole.name role = Some n \<and> NewRole.colour role = colour_or c1 c2
      \<and> (\<exists>pre. roles g' = roles g @ pre @ [role])"
proof (cases "roles g = [] \<and> n \<noteq> ''@everyone''")
  case True
  then show ?thesis
    by (simp add: add_role_empty Let_def NewRole_init_fields)
next
  case False
  then have "roles g \<noteq> [] \<or> n = ''@everyone''" by blast
  then show ?thesis
    by (simp add: add_role_append NewRole_init_fields)
qed

lemma add_text_channel_roles:
  "roles (fst (snd (NewGuild_add_text_channel ref n c t s f ow a d sys g r))) = roles g"
  by (simp add: NewGuild_add_text_channel_def split_beta Let_def)
lemma add_voice_channel_roles:
  "roles (fst (snd (NewGuild_add_voice_channel ref n c b u rr v ow afk g r))) = roles g"
  by (simp add: NewGuild_add_voice_channel_def split_beta Let_def)
lemma add_stage_channel_roles:
  "roles (fst (snd (NewGuild_add_stage_channel ref n c b u rr v ow g r))) = roles g"
  by (simp add: NewGuild_add_stage_channel_def split_beta Let_def)
lemma add_category_roles:
  "roles (fst (snd (NewGuild_add_category ref n ow g r))) = roles g"
  by (simp add: NewGuild_add_category_def split_beta Let_def)
lemma add_forum_roles:
  "roles (fst (snd (NewGuild_add_forum ref n t c s f ow a d so em l tags g r))) = roles g"
  by (simp add: NewGuild_add_forum_def split_beta Let_def)

lemmas channel_ops_roles = add_text_channel_roles add_voice_channel_roles
  add_stage_channel_roles add_category_roles add_forum_roles

lemma ex_pair_fst: "(\<exists>g'. (\<exists>r'. p = (g', r')) \<and> P g') = P (fst p)"
  by (cases p) auto

lemma apply_addition_roles:
  "\<exists>g' r' extra. apply_addition ref a g r = Inr (g', r') \<and> roles g' = roles g @ extra"
proof (cases a)
  case (AddRole n p c1 c2 h m)
  obtain role g' r' pre where
    "NewGuild_add_role n p c1 c2 h m g r = Inr (role, g', r')" "roles g' = roles g @ pre @ [role]"
    using add_role_total [of n p c1 c2 h m g r] by blast
  then show ?thesis using AddRole by simp
qed (simp_all add: split_beta ex_pair_fst channel_ops_roles)

lemma apply_additions_roles:
  "\<exists>g' r' extra. apply_additions ref adds g r = Inr (g', r') \<and> roles g' = roles g @ extra"
proof (induction adds arbitrary: g r)
  case Nil
  then show ?case by simp
next
  case (Cons a adds)
  obtain g1 r1 e1 where 1: "apply_addition ref a g r = Inr (g1, r1)" "roles g1 = roles g @ e1"
    using apply_addition_roles [of ref a g r] by blast
  obtain g2 r2 e2 where 2: "apply_additions ref adds g1 r1 = Inr (g2, r2)" "roles g2 = roles g1 @ e2"
    using Cons.IH [of g1 r1] by blast
  from 1 2 show ?case by simp
qed

lemma guild_roles_key:
  "NewGuild_to_payload ext g = Inr doc \<Longrightarrow>
     map_of doc ''roles'' =
       (if roles g = [] then None
        else Some (JList (map (\<lambda>role. JDict (NewRole_to_payload ext role)) (roles g))))"
  unfolding NewGuild_to_payload_def
  apply (simp add: folds cong: sum.case_cong if_cong split del: if_split)
  apply (auto split: sum.splits if_splits option.splits simp: Let_def map_of_assign_opt update_conv')
  done

subsection \<open>Documents of channels\<close>

lemma overwrites_loop_single_role:
  "overwrites_loop ext perms [(RoleTarget R, Instance P)] =
     Inr (perms @ [JDict [(''allow'', JInt (value' (fst (pair P)))),
                          (''deny'', JInt (value' (snd (pair P)))),
                          (''id'', JInt (NewRole.id R)),
                          (''type'', JInt (Overwrites_ROLE ext))]])"
  by (simp add: split_beta)

lemma base_doc_lookup:
  assumes "NewGuildChannel_to_payload ext c = Inr b"
  shows "map_of b ''id'' = Some (JInt (NewGuildChannel.id c))"
    and "map_of b ''name'' = Some (JStr (NewGuildChannel.name c))"
    and "map_of b ''type'' = Some (JInt (ChannelType_value ext (NewGuildChannel.type c)))"
    and "map_of b ''parent_id'' = map_option (\<lambda>p. JInt (NewGuildChannel.id p)) (category c)"
    and "overwrites c = None \<Longrightarrow> map_of b ''permission_overwrites'' = None"
    and "k \<notin> {''id'', ''name'', ''type'', ''permission_overwrites'', ''parent_id''}
           \<Longrightarrow> map_of b k = None"
  using assms unfolding NewGuildChannel_to_payload_def
  by (auto simp: Let_def update_conv' split: sum.splits option.splits dyn.splits if_splits)

lemma base_doc_single_overwrite:
  assumes "overwrites c = Some (Instance [(RoleTarget R, Instance P)])"
  shows "\<exists>b. NewGuildChannel_to_payload ext c = Inr b
           \<and> map_of b ''permission_overwrites'' =
               Some (JList [JDict [(''allow'', JInt (value' (fst (pair P)))),
                                   (''deny'', JInt (value' (snd (pair P)))),
                                   (''id'', JInt (NewRole.id R)),
                                   (''type'', JInt (Overwrites_ROLE ext))]])"
  using assms unfolding NewGuildChannel_to_payload_def
  by (cases "category c") (simp_all add: Let_def update_conv' split_beta)

lemma text_doc_base:
  assumes "NewTextChannel_to_payload ext c = Inr doc"
  shows "\<exists>b. NewGuildChannel_to_payload ext (NewTextChannel.base c) = Inr b
           \<and> (\<forall>k \<in> {''id'', ''name'', ''type'', ''permission_overwrites'', ''parent_id''}.
                 map_of doc k = map_of b k)"
  using assms unfolding NewTextChannel_to_payload_def
  apply (simp add: folds cong: sum.case_cong if_cong split del: if_split)
  apply (auto split: sum.splits simp: map_of_assign_opt)
  done

lemma voice_doc_base:
  assumes "NewVoiceChannel_to_payload ext c = Inr doc"
  shows "\<exists>b. NewGuildChannel_to_payload ext (NewVoiceChannel.base c) = Inr b
           \<and> (\<forall>k \<in> {''id'', ''name'', ''type'', ''permission_overwrites'', ''parent_id''}.
                 map_of doc k = map_of b k)"
  using assms unfolding NewVoiceChannel_to_payload_def
  apply (simp add: folds cong: sum.case_cong if_cong split del: if_split)
  apply (auto split: sum.splits option.splits dyn.splits simp: Let_def map_of_assign_opt update_conv')
  done

lemma stage_doc_base:
  assumes "NewStageChannel_to_payload ext c = Inr doc"
  shows "\<exists>b. NewGuildChannel_to_payload ext (NewStageChannel.base c) = Inr b
           \<and> (\<forall>k \<in> {''id'', ''name'', ''type'', ''permission_overwrites'', ''parent_id''}.
                 map_of doc k = map_of b k)"
  using assms unfolding NewStageChannel_to_payload_def
  apply (simp add: folds cong: sum.case_cong if_cong split del: if_split)
  apply (auto split: sum.splits option.splits dyn.splits simp: Let_def map_of_assign_opt update_conv')
  done

lemma forum_doc_base:
  assumes "NewForum_to_payload ext c = Inr doc"
  shows "\<exists>b. NewGuildChannel_to_payload ext (NewForum.base c) = Inr b
           \<and> (\<forall>k \<in> {''id'', ''name'', ''type'', ''permission_overwrites'', ''parent_id''}.
                 map_of doc k = map_of b k)"
  using assms unfolding NewForum_to_payload_def
  apply (simp add: folds cong: sum.case_cong if_cong split del: if_split)
  apply (auto split: sum.splits option.splits dyn.splits emoji_input.splits
              simp: Let_def map_of_assign_opt update_conv')
  done

lemma channel_doc_base:
  assumes "channel_to_payload ext ch = Inr doc"
  shows "\<exists>b. NewGuildChannel_to_payload ext (channel_base ch) = Inr b
           \<and> (\<forall>k \<in> {''id'', ''name'', ''type'', ''permission_overwrites'', ''parent_id''}.
                 map_of doc k = map_of b k)"
  using assms
proof (cases ch)
  case (TextChannel c)
  then show ?thesis using assms text_doc_base [of ext c doc] by simp
next
  case (VoiceChannel c)
  then show ?thesis using assms voice_doc_base [of ext c doc] by simp
next
  case (StageChannel c)
  then show ?thesis using assms stage_doc_base [of ext c doc] by simp
next
  case (Category c)
  then show ?thesis using assms by simp
next
  case (Forum c)
  then show ?thesis using assms forum_doc_base [of ext c doc] by simp
qed

lemma add_forum_kind:
  "NewGuildChannel.type (NewForum.base
     (fst (NewGuild_add_forum ref n t c s f ow a d so em l tags g r))) = ChannelType_text"
  by (simp add: NewGuild_add_forum_def NewForum_init_def NewGuildChannel_init_def
        split_beta Let_def)

lemma add_channel_kinds:
  "NewGuildChannel.type (NewTextChannel.base
     (fst (NewGuild_add_text_channel ref n c t s f ow a d sys g r))) = ChannelType_text"
  "NewGuildChannel.type (NewVoiceChannel.base
     (fst (NewGuild_add_voice_channel ref n c b u rr v ow afk g r))) = ChannelType_voice"
  "NewGuildChannel.type (NewStageChannel.base
     (fst (NewGuild_add_stage_channel ref n c b u rr v ow g r))) = ChannelType_stage_voice"
  "NewGuildChannel.type (fst (NewGuild_add_category ref n ow g r)) = ChannelType_category"
  by (simp_all add: NewGuild_add_text_channel_def NewTextChannel_init_def
        NewGuild_add_voice_channel_def NewVoiceChannel_init_def
        NewGuild_add_stage_channel_def NewStageChannel_init_def
        NewGuild_add_category_def NewCategory_init_def
        NewGuildChannel_init_def split_beta Let_def)

lemma overwrites_loop_non_role_fails:
  assumes "(t, p) \<in> set items" and "\<not> isinstance_NewRole t"
  shows "\<exists>e. overwrites_loop ext perms items = Inl e"
  using assms
proof (induction items arbitrary: perms)
  case Nil
  then show ?case by simp
next
  case (Cons item items)
  obtain t' p' where item: "item = (t', p')" by (cases item)
  show ?case
  proof (cases "isinstance_NewRole t'")
    case False
    then show ?thesis using item
      by (auto split: dyn.splits sum.splits simp: split_beta)
  next
    case True
    then have "(t, p) \<in> set items" using Cons.prems item by auto
    from Cons.IH [OF this Cons.prems(2)] show ?thesis using item
      by (auto split: dyn.splits sum.splits simp: split_beta)
  qed
qed

lemma overwrites_loop_failure_kind:
  assumes "overwrites_loop ext perms items = Inl e"
  shows "e = TypeError \<or> (e = AttributeError \<and> (\<exists>p. (PlainTarget, Instance p) \<in> set items))"
  using assms
proof (induction items arbitrary: perms)
  case Nil
  then show ?case by simp
next
  case (Cons item items)
  obtain t' p' where item: "item = (t', p')" by (cases item)
  show ?case
  proof (cases p')
    case Other
    then show ?thesis using Cons.prems item by simp
  next
    case (Instance q)
    show ?thesis
    proof (cases t')
      case (RoleTarget x)
      then have "overwrites_loop ext (perms @ [JDict [(''allow'', JInt (value' (fst (pair q)))),
                    (''deny'', JInt (value' (snd (pair q)))), (''id'', JInt (NewRole.id x)),
                    (''type'', JInt (Overwrites_ROLE ext))]]) items = Inl e"
        using Cons.prems item Instance by (simp add: split_beta)
      from Cons.IH [OF this] show ?thesis by auto
    next
      case (IdTarget i)
      then show ?thesis using Cons.prems item Instance by (simp add: split_beta)
    next
      case PlainTarget
      then show ?thesis using Cons.prems item Instance by (auto simp: split_beta)
    qed
  qed
qed

lemma role_doc_lookup:
  "map_of (NewRole_to_payload ext role) ''permissions''
     = map_option (\<lambda>p. JStr (str (value' p))) (NewRole.permissions role)"
  "map_of (NewRole_to_payload ext role) ''hoist'' = map_option JBool (NewRole.hoist role)"
  "map_of (NewRole_to_payload ext role) ''mentionable''
     = map_option JBool (NewRole.mentionable role)"
  "map_of (NewRole_to_payload ext role) ''name'' = map_option JStr (NewRole.name role)"
  "NewRole.colour role = None \<Longrightarrow>
     map_of (NewRole_to_payload ext role) ''color'' = Some (JInt (value' (Colour_default ext)))"
  unfolding NewRole_to_payload_def
  by (simp_all add: folds Let_def map_of_assign_opt update_conv'
        split: option.splits colour_arg.splits)

lemma base_doc_other_keys:
  assumes "NewGuildChannel_to_payload ext c = Inr b"
  shows "map_of b ''topic'' = None"
    and "map_of b ''rate_limit_per_user'' = None"
    and "map_of b ''nsfw'' = None"
    and "map_of b ''default_auto_archive_duration'' = None"
    and "map_of b ''default_thread_rate_limit_per_user'' = None"
    and "map_of b ''bitrate'' = None"
    and "map_of b ''user_limit'' = None"
    and "map_of b ''rtc_region'' = None"
    and "map_of b ''video_quality_mode'' = None"
    and "map_of b ''default_sort_order'' = None"
    and "map_of b ''default_reaction_emoji'' = None"
    and "map_of b ''default_forum_layout'' = None"
    and "map_of b ''available_tags'' = None"
  using assms by (simp_all add: base_doc_lookup(6))

lemma text_doc_lookup:
  assumes "NewTextChannel_to_payload ext c = Inr doc"
  shows "map_of doc ''topic'' = map_option JStr (NewTextChannel.topic c)"
    and "map_of doc ''rate_limit_per_user'' = map_option JInt (NewTextChannel.slowmode_delay c)"
    and "map_of doc ''nsfw'' = map_option JBool (NewTextChannel.nsfw c)"
    and "map_of doc ''default_auto_archive_duration''
           = map_option JInt (NewTextChannel.default_auto_archive_duration c)"
    and "map_of doc ''default_thread_rate_limit_per_user''
           = map_option JInt (NewTextChannel.default_thread_slowmode_delay c)"
  using assms unfolding NewTextChannel_to_payload_def
  apply (simp_all add: folds cong: sum.case_cong if_cong split del: if_split)
  apply (auto split: sum.splits option.splits simp: map_of_assign_opt base_doc_other_keys)
  done

lemma voice_doc_unset:
  assumes "NewVoiceChannel_to_payload ext c = Inr doc"
  shows "NewVoiceChannel.bitrate c = None \<Longrightarrow> map_of doc ''bitrate'' = None"
    and "NewVoiceChannel.user_limit c = None \<Longrightarrow> map_of doc ''user_limit'' = None"
    and "NewVoiceChannel.rtc_region c = None \<Longrightarrow> map_of doc ''rtc_region'' = None"
    and "NewVoiceChannel.video_quality_mode c = None \<Longrightarrow>
           map_of doc ''video_quality_mode'' = None"
  using assms unfolding NewVoiceChannel_to_payload_def
  apply (simp_all add: folds cong: sum.case_cong if_cong split del: if_split)
  apply (auto split: sum.splits option.splits dyn.splits
              simp: Let_def update_conv' map_of_assign_opt base_doc_other_keys)
  done

lemma stage_doc_unset:
  assumes "NewStageChannel_to_payload ext c = Inr doc"
  shows "NewStageChannel.bitrate c = None \<Longrightarrow> map_of doc ''bitrate'' = None"
    and "NewStageChannel.user_limit c = None \<Longrightarrow> map_of doc ''user_limit'' = None"
    and "NewStageChannel.rtc_region c = None \<Longrightarrow> map_of doc ''rtc_region'' = None"
    and "NewStageChannel.video_quality_mode c = None \<Longrightarrow>
           map_of doc ''video_quality_mode'' = None"
  using assms unfolding NewStageChannel_to_payload_def
  apply (simp_all add: folds cong: sum.case_cong if_cong split del: if_split)
  apply (auto split: sum.splits option.splits dyn.splits
              simp: Let_def update_conv' map_of_assign_opt base_doc_other_keys)
  done

lemma forum_doc_unset:
  assumes "NewForum_to_payload ext c = Inr doc"
  shows "NewForum.topic c = None \<Longrightarrow> map_of doc ''topic'' = None"
    and "NewForum.slowmode_delay c = None \<Longrightarrow> map_of doc ''rate_limit_per_user'' = None"
    and "NewForum.nsfw c = None \<Longrightarrow> map_of doc ''nsfw'' = None"
    and "NewForum.default_auto_archive_duration c = None \<Longrightarrow>
           map_of doc ''default_auto_archive_duration'' = None"
    and "NewForum.default_thread_slowmode_delay c = None \<Longrightarrow>
           map_of doc ''default_thread_rate_limit_per_user'' = None"
    and "NewForum.default_sort_order c = None \<Longrightarrow> map_of doc ''default_sort_order'' = None"
    and "NewForum.default_reaction_emoji c = None \<Longrightarrow>
           map_of doc ''default_reaction_emoji'' = None"
    and "NewForum.default_layout c = None \<Longrightarrow> map_of doc ''default_forum_layout'' = None"
    and "NewForum.available_tags c = None \<Longrightarrow> map_of doc ''available_tags'' = None"
  using assms unfolding NewForum_to_payload_def
  apply (simp_all add: folds cong: sum.case_cong if_cong split del: if_split)
  apply (auto split: sum.splits option.splits dyn.splits emoji_input.splits
              simp: Let_def update_conv' map_of_assign_opt base_doc_other_keys)
  done

lemma guild_doc_unset:
  assumes "NewGuild_to_payload ext g = Inr doc"
  shows "icon g = None \<Longrightarrow> map_of doc ''icon'' = None"
    and "afk_timeout g = None \<Longrightarrow> map_of doc ''afk_timeout'' = None"
    and "verification_level g = None \<Longrightarrow> map_of doc ''verification_level'' = None"
    and "notification_level g = None \<Longrightarrow> map_of doc ''default_message_notifications'' = None"
    and "content_filter g = None \<Longrightarrow> map_of doc ''explicit_content_filter'' = None"
    and "system_channel_flags g = None \<Longrightarrow> map_of doc ''system_channel_flags'' = None"
  using assms unfolding NewGuild_to_payload_def
  apply (simp_all add: folds cong: sum.case_cong if_cong split del: if_split)
  apply (auto split: sum.splits if_splits option.splits
              simp: Let_def map_of_assign_opt update_conv')
  done

lemma guild_special_channel_keys:
  assumes "NewGuild_to_payload ext g = Inr doc"
  shows "map_of doc ''afk_channel_id'' =
           (if channels g = [] then None
            else case afk_channel_id g of
                   None \<Rightarrow> None
                 | Some i \<Rightarrow> if i \<noteq> 0 then Some (JInt i) else None)"
    and "map_of doc ''system_channel_id'' =
           (if channels g = [] then None
            else case system_channel_id g of
                   None \<Rightarrow> None
                 | Some i \<Rightarrow> if i \<noteq> 0 then Some (JInt i) else None)"
  using assms unfolding NewGuild_to_payload_def
  apply (simp_all add: folds cong: sum.case_cong if_cong split del: if_split)
  apply (auto split: sum.splits if_splits option.splits
              simp: Let_def map_of_assign_opt update_conv')
  done

lemma channel_init_id:
  "NewGuildChannel.id (fst (NewGuildChannel_init n t c ow gr r)) = fst (randint 0 999999999999 r)"
  by (simp add: NewGuildChannel_init_def split_beta)

lemma add_voice_channel_effect:
  "NewGuildChannel.id (NewVoiceChannel.base
      (fst (NewGuild_add_voice_channel ref n c b u rr v ow afk g r)))
     = fst (randint 0 999999999999 r)"
  "channels (fst (snd (NewGuild_add_voice_channel ref n c b u rr v ow afk g r)))
     = channels g @ [VoiceChannel (fst (NewGuild_add_voice_channel ref n c b u rr v ow afk g r))]"
  "afk_channel_id (fst (snd (NewGuild_add_voice_channel ref n c b u rr v ow afk g r)))
     = (if afk then Some (fst (randint 0 999999999999 r)) else afk_channel_id g)"
  by (simp_all add: NewGuild_add_voice_channel_def NewVoiceChannel_init_def
        NewGuildChannel_init_def split_beta Let_def)

lemma add_text_channel_effect:
  "NewGuildChannel.id (NewTextChannel.base
      (fst (NewGuild_add_text_channel ref n c t s f ow a d sys g r)))
     = fst (randint 0 999999999999 r)"
  "channels (fst (snd (NewGuild_add_text_channel ref n c t s f ow a d sys g r)))
     = channels g @ [TextChannel (fst (NewGuild_add_text_channel ref n c t s f ow a d sys g r))]"
  "system_channel_id (fst (snd (NewGuild_add_text_channel ref n c t s f ow a d sys g r)))
     = (if sys then Some (fst (randint 0 999999999999 r)) else system_channel_id g)"
  by (simp_all add: NewGuild_add_text_channel_def NewTextChannel_init_def
        NewGuildChannel_init_def split_beta Let_def)

lemma add_category_guild:
  "NewGuildChannel.guild (fst (NewGuild_add_category ref n ow g r)) = ref"
  by (simp add: NewGuild_add_category_def NewCategory_init_def NewGuildChannel_init_def
        split_beta Let_def)

subsection \<open>Failures of the overwrite loop\<close>

lemma base_doc_non_role_key_fails:
  assumes "overwrites c = Some (Instance items)"
    and "(t, p) \<in> set items" and "\<not> isinstance_NewRole t"
  shows "\<exists>e. NewGuildChannel_to_payload ext c = Inl e"
proof -
  obtain e where "overwrites_loop ext [] items = Inl e"
    using overwrites_loop_non_role_fails [OF assms(2,3)] by blast
  then show ?thesis
    using assms(1) by (simp add: NewGuildChannel_to_payload_def)
qed

lemma channel_doc_base_fails:
  assumes "NewGuildChannel_to_payload ext (channel_base ch) = Inl e"
  shows "channel_to_payload ext ch = Inl e"
  using assms
  by (cases ch)
     (simp_all add: NewTextChannel_to_payload_def NewVoiceChannel_to_payload_def
        NewStageChannel_to_payload_def NewForum_to_payload_def)

lemma payloads_fails:
  assumes "x \<in> set xs" and "f x = Inl e"
  shows "\<exists>e'. payloads f xs = Inl e'"
  using assms
  by (induction xs) (auto split: sum.splits)

lemma guild_doc_channel_fails:
  assumes "ch \<in> set (channels g)" and "channel_to_payload ext ch = Inl e"
  shows "\<exists>e'. NewGuild_to_payload ext g = Inl e'"
proof -
  obtain e' where "payloads (channel_to_payload ext) (channels g) = Inl e'"
    using payloads_fails [of ch "channels g" "channel_to_payload ext" e] assms by blast
  moreover have "channels g \<noteq> []"
    using assms(1) by auto
  ultimately show ?thesis
    unfolding NewGuild_to_payload_def
    apply (simp add: folds cong: sum.case_cong if_cong)
    apply (simp add: Let_def split: sum.splits option.splits)
    done
qed

lemma non_role_key_gives_no_document:
  assumes "ch \<in> set (channels g)"
    and "overwrites (channel_base ch) = Some (Instance items)"
    and "(t, p) \<in> set items" and "\<not> isinstance_NewRole t"
  shows "\<exists>e. channel_to_payload ext ch = Inl e" and "\<exists>e. NewGuild_to_payload ext g = Inl e"
proof -
  obtain e where "NewGuildChannel_to_payload ext (channel_base ch) = Inl e"
    using base_doc_non_role_key_fails [OF assms(2,3,4)] by blast
  then have ch: "channel_to_payload ext ch = Inl e"
    by (rule channel_doc_base_fails)
  then show "\<exists>e. channel_to_payload ext ch = Inl e" by blast
  from guild_doc_channel_fails [OF assms(1) ch]
  show "\<exists>e. NewGuild_to_payload ext g = Inl e" .
qed

lemma base_doc_failure_kind:
  assumes "NewGuildChannel_to_payload ext c = Inl e"
  shows "e = TypeError
       \<or> (e = AttributeError
          \<and> (\<exists>items p. overwrites c = Some (Instance items) \<and> (PlainTarget, Instance p) \<in> set items))"
  using assms unfolding NewGuildChannel_to_payload_def
  by (auto simp: Let_def split: option.splits dyn.splits sum.splits
           dest: overwrites_loop_failure_kind)

section \<open>The default role in the serialized document (C1)\<close>




section \<open>The default role comes first (C3)\<close>

text \<open>
  C3: on a graph whose \<open>roles\<close> list is empty, \<open>add_role\<close> with a name other than
  \<open>'@everyone'\<close> returns normally and leaves exactly two roles: the synthesized default
  role (named \<open>'@everyone'\<close>) at index 0 and the requested role at index 1. The serialized
  \<open>roles\<close> sequence lists their documents in that order. Every sequence of later builder
  calls succeeds and keeps the two roles at indices 0 and 1 of the list and of the
  serialized sequence.
\<close>

theorem add_role_puts_default_role_first:
  assumes "roles g = []" and "n \<noteq> ''@everyone''"
  shows "\<exists>d role g' r'.
           NewGuild_add_role n p c1 c2 h m g r = Inr (role, g', r')
         \<and> roles g' = [d, role]
         \<and> NewRole.name d = Some ''@everyone''
         \<and> NewRole.name role = Some n
         \<and> (NewGuild_to_payload ext g' = Inr doc \<longrightarrow>
              map_of doc ''roles'' =
                Some (JList [JDict (NewRole_to_payload ext d), JDict (NewRole_to_payload ext role)]))
         \<and> (\<forall>adds. \<exists>g'' r'' rest.
                apply_additions ref adds g' r' = Inr (g'', r'')
              \<and> roles g'' = d # role # rest
              \<and> (\<forall>doc'. NewGuild_to_payload ext g'' = Inr doc' \<longrightarrow>
                    map_of doc' ''roles'' =
                      Some (JList (JDict (NewRole_to_payload ext d)
                                   # JDict (NewRole_to_payload ext role)
                                   # map (\<lambda>x. JDict (NewRole_to_payload ext x)) rest))))"
proof -
  let ?d = "NewRole_init (Some ''@everyone'') None None None None r"
  let ?x = "NewRole_init (Some n) p (colour_or c1 c2) h m (snd ?d)"
  let ?g = "g\<lparr>roles := [fst ?d, fst ?x]\<rparr>"
  have call: "NewGuild_add_role n p c1 c2 h m g r = Inr (fst ?x, ?g, snd ?x)"
    using assms by (simp add: add_role_empty Let_def)
  have now: "NewGuild_to_payload ext ?g = Inr doc \<longrightarrow>
               map_of doc ''roles'' =
                 Some (JList [JDict (NewRole_to_payload ext (fst ?d)),
                              JDict (NewRole_to_payload ext (fst ?x))])"
    by (auto dest: guild_roles_key)
  have later: "\<exists>g'' r'' rest.
                 apply_additions ref adds ?g (snd ?x) = Inr (g'', r'')
               \<and> roles g'' = fst ?d # fst ?x # rest
               \<and> (\<forall>doc'. NewGuild_to_payload ext g'' = Inr doc' \<longrightarrow>
                     map_of doc' ''roles'' =
                       Some (JList (JDict (NewRole_to_payload ext (fst ?d))
                                    # JDict (NewRole_to_payload ext (fst ?x))
                                    # map (\<lambda>x. JDict (NewRole_to_payload ext x)) rest)))"
    for adds
  proof -
    obtain g'' r'' extra where
      run: "apply_additions ref adds ?g (snd ?x) = Inr (g'', r'')" and
      grow: "roles g'' = roles ?g @ extra"
      using apply_additions_roles [of ref adds ?g "snd ?x"] by blast
    from grow have rs: "roles g'' = fst ?d # fst ?x # extra" by simp
    have "NewGuild_to_payload ext g'' = Inr doc' \<longrightarrow>
            map_of doc' ''roles'' =
              Some (JList (JDict (NewRole_to_payload ext (fst ?d))
                           # JDict (NewRole_to_payload ext (fst ?x))
                           # map (\<lambda>x. JDict (NewRole_to_payload ext x)) extra))" for doc'
      using rs by (auto dest: guild_roles_key)
    with run rs show ?thesis by blast
  qed
  show ?thesis
    apply (rule exI [of _ "fst ?d"])
    apply (rule exI [of _ "fst ?x"])
    apply (rule exI [of _ ?g])
    apply (rule exI [of _ "snd ?x"])
    using call now later by (simp add: NewRole_init_fields)
qed

theorem add_role_puts_default_role_first_witness:
  "roles (NewGuild_init ''Test'' None None None None None None) = []
   \<and> ''Mods'' \<noteq> ''@everyone''
   \<and> (\<exists>role g' r'.
         NewGuild_add_role ''Mods'' (Some (ValueObject 8 True)) None None None None
           (NewGuild_init ''Test'' None None None None None None) (\<lambda>n. 5 + int n)
           = Inr (role, g', r')
       \<and> NewGuild_to_payload sample_externals g'
           = Inr [(''name'', JStr ''Test''),
                  (''roles'',
                   JList [JDict [(''id'', JInt 5), (''color'', JInt 0),
                                 (''name'', JStr ''@everyone'')],
                          JDict [(''id'', JInt 6), (''permissions'', JStr ''8''),
                                 (''color'', JInt 0), (''name'', JStr ''Mods'')]])])"
proof -
  have empty: "roles (NewGuild_init ''Test'' None None None None None None) = []"
    by (simp add: NewGuild_init_def)
  have other: "''Mods'' \<noteq> ''@everyone''"
    by simp
  note general = add_role_puts_default_role_first [OF empty other]
  have run: "\<exists>role g' r'.
         NewGuild_add_role ''Mods'' (Some (ValueObject 8 True)) None None None None
           (NewGuild_init ''Test'' None None None None None None) (\<lambda>n. 5 + int n)
           = Inr (role, g', r')
       \<and> NewGuild_to_payload sample_externals g'
           = Inr [(''name'', JStr ''Test''),
                  (''roles'',
                   JList [JDict [(''id'', JInt 5), (''color'', JInt 0),
                                 (''name'', JStr ''@everyone'')],
                          JDict [(''id'', JInt 6), (''permissions'', JStr ''8''),
                                 (''color'', JInt 0), (''name'', JStr ''Mods'')]])]"
    by (simp add: add_role_empty Let_def NewGuild_init_def NewGuild_to_payload_def
          NewRole_init_def randint_def NewRole_to_payload_def sample_externals_def
          str_def str_nat.simps digit_def)
  from general empty other run show ?thesis
    by blast
qed

section \<open>The colour aliases of the add-role operation (C4)\<close>

text \<open>
  C4, as stated, fails: \<open>add_role\<close> passes \<open>colour=color or colour\<close> to the role, so with
  \<open>color=1\<close> and \<open>colour=2\<close> the created role's colour is 1, the \<open>color\<close> argument.
\<close>

theorem add_role_color_overrides_colour:
  "\<not> isl (NewGuild_add_role ''Mods'' None (Some (AnInt 1)) (Some (AnInt 2)) None None
            (NewGuild_init ''Test'' None None None None None None) (\<lambda>n. 5))
   \<and> NewRole.colour
        (fst (projr (NewGuild_add_role ''Mods'' None (Some (AnInt 1)) (Some (AnInt 2)) None None
                       (NewGuild_init ''Test'' None None None None None None) (\<lambda>n. 5))))
       = Some (AnInt 1)
   \<and> Some (AnInt 1) \<noteq> Some (AnInt 2)"
  by (simp add: add_role_empty Let_def NewGuild_init_def NewRole_init_fields)

text \<open>
  C4, amended: \<open>add_role\<close> always returns a role, and when both \<open>color\<close> and \<open>colour\<close> are
  given the \<open>color\<close> value wins whenever it is truthy (a \<open>Colour\<close> object whose truth value
  is true, or a non-zero integer): the role's colour is then the \<open>color\<close> argument. The
  \<open>colour\<close> argument is used only when \<open>color\<close> is \<open>None\<close> or falsy (the integer 0, say).
\<close>

theorem add_role_colour_is_color_or_colour:
  "\<exists>role g' r'.
     NewGuild_add_role n p color' colour' h m g r = Inr (role, g', r')
   \<and> (\<forall>c. color' = Some c \<and> colour_arg_truth c \<longrightarrow> NewRole.colour role = Some c)
   \<and> (\<forall>c. color' = Some c \<and> \<not> colour_arg_truth c \<longrightarrow> NewRole.colour role = colour')
   \<and> (color' = None \<longrightarrow> NewRole.colour role = colour')"
proof -
  obtain role g' r' where
    "NewGuild_add_role n p color' colour' h m g r = Inr (role, g', r')"
    "NewRole.colour role = colour_or color' colour'"
    using add_role_total [of n p color' colour' h m g r] by blast
  then show ?thesis by auto
qed

theorem add_role_colour_is_color_or_colour_witness:
  "colour_arg_truth (AnInt 1) \<and> \<not> colour_arg_truth (AnInt 0)
   \<and> (\<exists>role g' r'.
         NewGuild_add_role ''Mods'' None (Some (AnInt 1)) (Some (AnInt 2)) None None
           (NewGuild_init ''Test'' None None None None None None) (\<lambda>n. 5) = Inr (role, g', r')
       \<and> NewRole.colour role = Some (AnInt 1))
   \<and> (\<exists>role g' r'.
         NewGuild_add_role ''Mods'' None (Some (AnInt 0)) (Some (AnInt 2)) None None
           (NewGuild_init ''Test'' None None None None None None) (\<lambda>n. 5) = Inr (role, g', r')
       \<and> NewRole.colour role = Some (AnInt 2))
   \<and> (\<exists>role g' r'.
         NewGuild_add_role ''Mods'' None None (Some (AnInt 2)) None None
           (NewGuild_init ''Test'' None None None None None None) (\<lambda>n. 5) = Inr (role, g', r')
       \<and> NewRole.colour role = Some (AnInt 2))"
  using
    add_role_colour_is_color_or_colour
      [of "''Mods''" None "Some (AnInt 1)" "Some (AnInt 2)" None None
          "NewGuild_init ''Test'' None None None None None None" "\<lambda>n. 5"]
    add_role_colour_is_color_or_colour
      [of "''Mods''" None "Some (AnInt 0)" "Some (AnInt 2)" None None
          "NewGuild_init ''Test'' None None None None None None" "\<lambda>n. 5"]
    add_role_colour_is_color_or_colour
      [of "''Mods''" None None "Some (AnInt 2)" None None
          "NewGuild_init ''Test'' None None None None None None" "\<lambda>n. 5"]
  by auto

section \<open>Permission overwrites in a channel document (C2)\<close>

text \<open>
  C2, as stated, fails: the serializer stores \<open>allow.value\<close> and \<open>deny.value\<close> themselves,
  which are integers, not their decimal strings. For the text channel \<open>'chat'\<close> with the
  overwrite \<open>{Mods: allow=8, deny=0}\<close> the document has \<open>'allow': 8\<close>, and the integer 8
  is not the string \<open>'8'\<close>.
\<close>

theorem overwrite_allow_deny_are_integers:
  "channel_to_payload sample_externals
     (TextChannel
        (NewTextChannel
           (NewGuildChannel 7 ''chat'' 0 ChannelType_text None
              (Some (Instance
                 [(RoleTarget \<lparr>NewRole.id = 6, name = Some ''Mods'',
                                permissions = None, colour = None, hoist = None,
                                mentionable = None\<rparr>,
                   Instance (PermissionOverwrite (ValueObject 8 True, ValueObject 0 False)))])))
           None None None None None))
     = Inr [(''id'', JInt 7), (''name'', JStr ''chat''), (''type'', JInt 0),
            (''permission_overwrites'',
             JList [JDict [(''allow'', JInt 8), (''deny'', JInt 0), (''id'', JInt 6),
                           (''type'', JInt 0)]])]
   \<and> JInt 8 \<noteq> JStr (str 8)"
  by (simp add: NewTextChannel_to_payload_def NewGuildChannel_to_payload_def
        sample_externals_def)

text \<open>
  C2, amended: for every channel (of any of the five classes) whose overwrites mapping
  is \<open>{R: P}\<close> for a role \<open>R\<close> and an overwrite \<open>P\<close> with pair \<open>(X, Y)\<close>, the serialized
  channel document's \<open>permission_overwrites\<close> is a list of exactly one entry, with \<open>id\<close>
  equal to \<open>R\<close>'s temp id, \<open>type\<close> equal to the ROLE target kind, and \<open>allow\<close>/\<open>deny\<close>
  equal to the integers \<open>X.value\<close> and \<open>Y.value\<close>.
\<close>

theorem single_overwrite_document:
  assumes "channel_to_payload ext ch = Inr doc"
    and "overwrites (channel_base ch) = Some (Instance [(RoleTarget R, Instance P)])"
    and "pair P = (X, Y)"
  shows "map_of doc ''permission_overwrites'' =
           Some (JList [JDict [(''allow'', JInt (value' X)), (''deny'', JInt (value' Y)),
                               (''id'', JInt (NewRole.id R)),
                               (''type'', JInt (Overwrites_ROLE ext))]])"
proof -
  obtain b where b: "NewGuildChannel_to_payload ext (channel_base ch) = Inr b"
    and same: "map_of doc ''permission_overwrites'' = map_of b ''permission_overwrites''"
    using channel_doc_base [OF assms(1)] by auto
  from base_doc_single_overwrite [OF assms(2), of ext] b assms(3) same
  show ?thesis by simp
qed

theorem single_overwrite_document_witness:
  "channel_to_payload sample_externals
     (TextChannel
        (NewTextChannel
           (NewGuildChannel 7 ''chat'' 0 ChannelType_text None
              (Some (Instance
                 [(RoleTarget \<lparr>NewRole.id = 6, name = Some ''Mods'',
                                permissions = None, colour = None, hoist = None,
                                mentionable = None\<rparr>,
                   Instance (PermissionOverwrite (ValueObject 8 True, ValueObject 0 False)))])))
           None None None None None))
     = Inr [(''id'', JInt 7), (''name'', JStr ''chat''), (''type'', JInt 0),
            (''permission_overwrites'',
             JList [JDict [(''allow'', JInt 8), (''deny'', JInt 0), (''id'', JInt 6),
                           (''type'', JInt 0)]])]
   \<and> map_of [(''id'', JInt 7), (''name'', JStr ''chat''), (''type'', JInt 0),
            (''permission_overwrites'',
             JList [JDict [(''allow'', JInt 8), (''deny'', JInt 0), (''id'', JInt 6),
                           (''type'', JInt 0)]])] ''permission_overwrites''
     = Some (JList [JDict [(''allow'', JInt 8), (''deny'', JInt 0), (''id'', JInt 6),
                           (''type'', JInt (Overwrites_ROLE sample_externals))]])"
proof -
  let ?R = "\<lparr>NewRole.id = 6, name = Some ''Mods'', permissions = None, colour = None,
             hoist = None, mentionable = None\<rparr>"
  let ?P = "PermissionOverwrite (ValueObject 8 True, ValueObject 0 False)"
  let ?ch = "TextChannel (NewTextChannel
               (NewGuildChannel 7 ''chat'' 0 ChannelType_text None
                  (Some (Instance [(RoleTarget ?R, Instance ?P)])))
               None None None None None)"
  let ?doc = "[(''id'', JInt 7), (''name'', JStr ''chat''), (''type'', JInt 0),
               (''permission_overwrites'',
                JList [JDict [(''allow'', JInt 8), (''deny'', JInt 0), (''id'', JInt 6),
                              (''type'', JInt 0)]])]"
  have run: "channel_to_payload sample_externals ?ch = Inr ?doc"
    by (simp add: NewTextChannel_to_payload_def NewGuildChannel_to_payload_def
          sample_externals_def)
  have ow: "overwrites (channel_base ?ch) = Some (Instance [(RoleTarget ?R, Instance ?P)])"
    by simp
  have pr: "pair ?P = (ValueObject 8 True, ValueObject 0 False)"
    by simp
  from single_overwrite_document [OF run ow pr] run show ?thesis
    by simp
qed

section \<open>The rendered kind of a forum channel (C5)\<close>

text \<open>
  C5 at the failing input: \<open>add_forum('help')\<close> on a new graph creates a channel whose
  document has \<open>type\<close> equal to the code of \<open>ChannelType.text\<close> (0 in the sample
  environment), not the code of the forum kind (15), because \<open>NewForum.__init__\<close> passes
  \<open>type=ChannelType.text\<close> to its base class.
\<close>

theorem add_forum_renders_text_kind:
  "channel_to_payload sample_externals
     (Forum (fst (NewGuild_add_forum 0 ''help'' None None None None None None None
                    None None None None
                    (NewGuild_init ''Test'' None None None None None None) (\<lambda>n. 5))))
     = Inr [(''id'', JInt 5), (''name'', JStr ''help''), (''type'', JInt 0)]
   \<and> ChannelType_value sample_externals ChannelType_text = 0
   \<and> ChannelType_value sample_externals ChannelType_forum = 15"
  by (simp add: NewGuild_add_forum_def NewForum_init_def NewGuildChannel_init_def
        randint_def NewForum_to_payload_def NewGuildChannel_to_payload_def
        sample_externals_def)

section \<open>Overwrite keys that are not roles (C7)\<close>

text \<open>
  C7 at the failing input: a text channel whose overwrites mapping has a key without an
  \<open>id\<close> attribute (a string, say). The serializer reads \<open>target.id\<close> while it builds the
  entry, before its \<open>isinstance(target, NewRole)\<close> test, so the graph's serialization
  ends with \<open>AttributeError\<close> instead of the \<open>TypeError\<close> that the test raises.
\<close>

theorem key_without_id_raises_attribute_error:
  "NewGuild_to_payload sample_externals
     (fst (snd (NewGuild_add_text_channel 0 ''chat'' None None None None
                  (Some (Instance
                     [(PlainTarget,
                       Instance (PermissionOverwrite (ValueObject 8 True, ValueObject 0 False)))]))
                  None None False
                  (NewGuild_init ''Test'' None None None None None None) (\<lambda>n. 5))))
     = Inl AttributeError"
  by (simp add: NewGuild_add_text_channel_def NewTextChannel_init_def NewGuildChannel_init_def
        randint_def NewGuild_init_def NewGuild_to_payload_def NewTextChannel_to_payload_def
        NewGuildChannel_to_payload_def sample_externals_def)

section \<open>Unset optional attributes (C8)\<close>

text \<open>
  C8, as stated, fails for the colour of a role: a role created without a colour still
  has a \<open>color\<close> key in its document, holding the value of the default colour (0 in the
  sample environment), because \<open>NewRole._to_payload\<close> renders
  \<open>self.colour or Colour.default()\<close> unconditionally.
\<close>

theorem unset_colour_renders_default_color:
  "NewRole.colour \<lparr>NewRole.id = 5, name = Some ''Mods'', permissions = None, colour = None,
                    hoist = None, mentionable = None\<rparr> = None
   \<and> NewRole_to_payload sample_externals
        \<lparr>NewRole.id = 5, name = Some ''Mods'', permissions = None, colour = None,
          hoist = None, mentionable = None\<rparr>
       = [(''id'', JInt 5), (''color'', JInt 0), (''name'', JStr ''Mods'')]"
  by (simp add: NewRole_to_payload_def sample_externals_def)

text \<open>
  C8, amended: an optional attribute left unset never appears as a key of the serialized
  document, for every attribute except the colour of a role. For a role: \<open>permissions\<close>,
  \<open>hoist\<close>, \<open>mentionable\<close>, \<open>name\<close>; for every channel: \<open>overwrites\<close>
  (key \<open>permission_overwrites\<close>) and \<open>category\<close> (key \<open>parent_id\<close>); for a text channel
  and a forum: \<open>topic\<close>, \<open>slowmode_delay\<close>, \<open>nsfw\<close>, \<open>default_auto_archive_duration\<close>,
  \<open>default_thread_slowmode_delay\<close>, and for a forum also \<open>default_sort_order\<close>,
  \<open>default_reaction_emoji\<close>, \<open>default_layout\<close>, \<open>available_tags\<close>; for a voice and a
  stage channel: \<open>bitrate\<close>, \<open>user_limit\<close>, \<open>rtc_region\<close>, \<open>video_quality_mode\<close>; for the
  graph: \<open>icon\<close>, \<open>afk_timeout\<close>, \<open>verification_level\<close>, \<open>notification_level\<close>,
  \<open>content_filter\<close>, \<open>system_channel_flags\<close>. The colour of a role is the exception: when
  it is unset, the key \<open>color\<close> is rendered with the value of the default colour.
\<close>

theorem unset_attributes_are_omitted:
  "(NewRole.permissions role = None \<longrightarrow>
      map_of (NewRole_to_payload ext role) ''permissions'' = None)
   \<and> (NewRole.hoist role = None \<longrightarrow> map_of (NewRole_to_payload ext role) ''hoist'' = None)
   \<and> (NewRole.mentionable role = None \<longrightarrow>
        map_of (NewRole_to_payload ext role) ''mentionable'' = None)
   \<and> (NewRole.name role = None \<longrightarrow> map_of (NewRole_to_payload ext role) ''name'' = None)
   \<and> (NewRole.colour role = None \<longrightarrow>
        map_of (NewRole_to_payload ext role) ''color''
          = Some (JInt (value' (Colour_default ext))))
   \<and> (channel_to_payload ext ch = Inr cdoc \<longrightarrow>
        (overwrites (channel_base ch) = None \<longrightarrow> map_of cdoc ''permission_overwrites'' = None)
      \<and> (category (channel_base ch) = None \<longrightarrow> map_of cdoc ''parent_id'' = None))
   \<and> (NewTextChannel_to_payload ext tc = Inr tdoc \<longrightarrow>
        (NewTextChannel.topic tc = None \<longrightarrow> map_of tdoc ''topic'' = None)
      \<and> (NewTextChannel.slowmode_delay tc = None \<longrightarrow>
           map_of tdoc ''rate_limit_per_user'' = None)
      \<and> (NewTextChannel.nsfw tc = None \<longrightarrow> map_of tdoc ''nsfw'' = None)
      \<and> (NewTextChannel.default_auto_archive_duration tc = None \<longrightarrow>
           map_of tdoc ''default_auto_archive_duration'' = None)
      \<and> (NewTextChannel.default_thread_slowmode_delay tc = None \<longrightarrow>
           map_of tdoc ''default_thread_rate_limit_per_user'' = None))
   \<and> (NewVoiceChannel_to_payload ext vc = Inr vdoc \<longrightarrow>
        (NewVoiceChannel.bitrate vc = None \<longrightarrow> map_of vdoc ''bitrate'' = None)
      \<and> (NewVoiceChannel.user_limit vc = None \<longrightarrow> map_of vdoc ''user_limit'' = None)
      \<and> (NewVoiceChannel.rtc_region vc = None \<longrightarrow> map_of vdoc ''rtc_region'' = None)
      \<and> (NewVoiceChannel.video_quality_mode vc = None \<longrightarrow>
           map_of vdoc ''video_quality_mode'' = None))
   \<and> (NewStageChannel_to_payload ext sc = Inr sdoc \<longrightarrow>
        (NewStageChannel.bitrate sc = None \<longrightarrow> map_of sdoc ''bitrate'' = None)
      \<and> (NewStageChannel.user_limit sc = None \<longrightarrow> map_of sdoc ''user_limit'' = None)
      \<and> (NewStageChannel.rtc_region sc = None \<longrightarrow> map_of sdoc ''rtc_region'' = None)
      \<and> (NewStageChannel.video_quality_mode sc = None \<longrightarrow>
           map_of sdoc ''video_quality_mode'' = None))
   \<and> (NewForum_to_payload ext fc = Inr fdoc \<longrightarrow>
        (NewForum.topic fc = None \<longrightarrow> map_of fdoc ''topic'' = None)
      \<and> (NewForum.slowmode_delay fc = None \<longrightarrow> map_of fdoc ''rate_limit_per_user'' = None)
      \<and> (NewForum.nsfw fc = None \<longrightarrow> map_of fdoc ''nsfw'' = None)
      \<and> (NewForum.default_auto_archive_duration fc = None \<longrightarrow>
           map_of fdoc ''default_auto_archive_duration'' = None)
      \<and> (NewForum.default_thread_slowmode_delay fc = None \<longrightarrow>
           map_of fdoc ''default_thread_rate_limit_per_user'' = None)
      \<and> (NewForum.default_sort_order fc = None \<longrightarrow> map_of fdoc ''default_sort_order'' = None)
      \<and> (NewForum.default_reaction_emoji fc = None \<longrightarrow>
           map_of fdoc ''default_reaction_emoji'' = None)
      \<and> (NewForum.default_layout fc = None \<longrightarrow> map_of fdoc ''default_forum_layout'' = None)
      \<and> (NewForum.available_tags fc = None \<longrightarrow> map_of fdoc ''available_tags'' = None))
   \<and> (NewGuild_to_payload ext g = Inr gdoc \<longrightarrow>
        (icon g = None \<longrightarrow> map_of gdoc ''icon'' = None)
      \<and> (afk_timeout g = None \<longrightarrow> map_of gdoc ''afk_timeout'' = None)
      \<and> (verification_level g = None \<longrightarrow> map_of gdoc ''verification_level'' = None)
      \<and> (notification_level g = None \<longrightarrow>
           map_of gdoc ''default_message_notifications'' = None)
      \<and> (content_filter g = None \<longrightarrow> map_of gdoc ''explicit_content_filter'' = None)
      \<and> (system_channel_flags g = None \<longrightarrow> map_of gdoc ''system_channel_flags'' = None))"
proof -
  have role: "(NewRole.permissions role = None \<longrightarrow>
      map_of (NewRole_to_payload ext role) ''permissions'' = None)
   \<and> (NewRole.hoist role = None \<longrightarrow> map_of (NewRole_to_payload ext role) ''hoist'' = None)
   \<and> (NewRole.mentionable role = None \<longrightarrow>
        map_of (NewRole_to_payload ext role) ''mentionable'' = None)
   \<and> (NewRole.name role = None \<longrightarrow> map_of (NewRole_to_payload ext role) ''name'' = None)
   \<and> (NewRole.colour role = None \<longrightarrow>
        map_of (NewRole_to_payload ext role) ''color''
          = Some (JInt (value' (Colour_default ext))))"
    by (simp add: role_doc_lookup)
  have chan: "channel_to_payload ext ch = Inr cdoc \<longrightarrow>
        (overwrites (channel_base ch) = None \<longrightarrow> map_of cdoc ''permission_overwrites'' = None)
      \<and> (category (channel_base ch) = None \<longrightarrow> map_of cdoc ''parent_id'' = None)"
  proof
    assume "channel_to_payload ext ch = Inr cdoc"
    then obtain b where b: "NewGuildChannel_to_payload ext (channel_base ch) = Inr b"
      and same: "map_of cdoc ''permission_overwrites'' = map_of b ''permission_overwrites''"
                "map_of cdoc ''parent_id'' = map_of b ''parent_id''"
      using channel_doc_base [of ext ch cdoc] by auto
    show "(overwrites (channel_base ch) = None \<longrightarrow> map_of cdoc ''permission_overwrites'' = None)
      \<and> (category (channel_base ch) = None \<longrightarrow> map_of cdoc ''parent_id'' = None)"
      using same base_doc_lookup(4,5) [OF b] by simp
  qed
  have texts: "NewTextChannel_to_payload ext tc = Inr tdoc \<longrightarrow>
        (NewTextChannel.topic tc = None \<longrightarrow> map_of tdoc ''topic'' = None)
      \<and> (NewTextChannel.slowmode_delay tc = None \<longrightarrow>
           map_of tdoc ''rate_limit_per_user'' = None)
      \<and> (NewTextChannel.nsfw tc = None \<longrightarrow> map_of tdoc ''nsfw'' = None)
      \<and> (NewTextChannel.default_auto_archive_duration tc = None \<longrightarrow>
           map_of tdoc ''default_auto_archive_duration'' = None)
      \<and> (NewTextChannel.default_thread_slowmode_delay tc = None \<longrightarrow>
           map_of tdoc ''default_thread_rate_limit_per_user'' = None)"
    by (simp add: text_doc_lookup)
  have voice: "NewVoiceChannel_to_payload ext vc = Inr vdoc \<longrightarrow>
        (NewVoiceChannel.bitrate vc = None \<longrightarrow> map_of vdoc ''bitrate'' = None)
      \<and> (NewVoiceChannel.user_limit vc = None \<longrightarrow> map_of vdoc ''user_limit'' = None)
      \<and> (NewVoiceChannel.rtc_region vc = None \<longrightarrow> map_of vdoc ''rtc_region'' = None)
      \<and> (NewVoiceChannel.video_quality_mode vc = None \<longrightarrow>
           map_of vdoc ''video_quality_mode'' = None)"
    using voice_doc_unset [of ext vc vdoc] by blast
  have stage: "NewStageChannel_to_payload ext sc = Inr sdoc \<longrightarrow>
        (NewStageChannel.bitrate sc = None \<longrightarrow> map_of sdoc ''bitrate'' = None)
      \<and> (NewStageChannel.user_limit sc = None \<longrightarrow> map_of sdoc ''user_limit'' = None)
      \<and> (NewStageChannel.rtc_region sc = None \<longrightarrow> map_of sdoc ''rtc_region'' = None)
      \<and> (NewStageChannel.video_quality_mode sc = None \<longrightarrow>
           map_of sdoc ''video_quality_mode'' = None)"
    using stage_doc_unset [of ext sc sdoc] by blast
  have forum: "NewForum_to_payload ext fc = Inr fdoc \<longrightarrow>
        (NewForum.topic fc = None \<longrightarrow> map_of fdoc ''topic'' = None)
      \<and> (NewForum.slowmode_delay fc = None \<longrightarrow> map_of fdoc ''rate_limit_per_user'' = None)
      \<and> (NewForum.nsfw fc = None \<longrightarrow> map_of fdoc ''nsfw'' = None)
      \<and> (NewForum.default_auto_archive_duration fc = None \<longrightarrow>
           map_of fdoc ''default_auto_archive_duration'' = None)
      \<and> (NewForum.default_thread_slowmode_delay fc = None \<longrightarrow>
           map_of fdoc ''default_thread_rate_limit_per_user'' = None)
      \<and> (NewForum.default_sort_order fc = None \<longrightarrow> map_of fdoc ''default_sort_order'' = None)
      \<and> (NewForum.default_reaction_emoji fc = None \<longrightarrow>
           map_of fdoc ''default_reaction_emoji'' = None)
      \<and> (NewForum.default_layout fc = None \<longrightarrow> map_of fdoc ''default_forum_layout'' = None)
      \<and> (NewForum.available_tags fc = None \<longrightarrow> map_of fdoc ''available_tags'' = None)"
    using forum_doc_unset [of ext fc fdoc] by blast
  have guild: "NewGuild_to_payload ext g = Inr gdoc \<longrightarrow>
        (icon g = None \<longrightarrow> map_of gdoc ''icon'' = None)
      \<and> (afk_timeout g = None \<longrightarrow> map_of gdoc ''afk_timeout'' = None)
      \<and> (verification_level g = None \<longrightarrow> map_of gdoc ''verification_level'' = None)
      \<and> (notification_level g = None \<longrightarrow>
           map_of gdoc ''default_message_notifications'' = None)
      \<and> (content_filter g = None \<longrightarrow> map_of gdoc ''explicit_content_filter'' = None)
      \<and> (system_channel_flags g = None \<longrightarrow> map_of gdoc ''system_channel_flags'' = None)"
    using guild_doc_unset [of ext g gdoc] by blast
  from role chan texts voice stage forum guild show ?thesis
    by (intro conjI) blast+
qed

theorem unset_attributes_are_omitted_witness:
  "NewRole_to_payload sample_externals
     \<lparr>NewRole.id = 5, name = None, permissions = None, colour = None, hoist = None,
       mentionable = None\<rparr>
     = [(''id'', JInt 5), (''color'', JInt 0)]
   \<and> channel_to_payload sample_externals
       (Category (NewGuildChannel 1 ''General'' 0 ChannelType_category None None))
     = Inr [(''id'', JInt 1), (''name'', JStr ''General''), (''type'', JInt 4)]
   \<and> NewTextChannel_to_payload sample_externals
       (NewTextChannel (NewGuildChannel 2 ''chat'' 0 ChannelType_text None None)
          None None None None None)
     = Inr [(''id'', JInt 2), (''name'', JStr ''chat''), (''type'', JInt 0)]
   \<and> map_of [(''id'', JInt 2), (''name'', JStr ''chat''), (''type'', JInt 0)] ''topic'' = None
   \<and> NewVoiceChannel_to_payload sample_externals
       (NewVoiceChannel (NewGuildChannel 3 ''talk'' 0 ChannelType_voice None None)
          None None None None)
     = Inr [(''id'', JInt 3), (''name'', JStr ''talk''), (''type'', JInt 2)]
   \<and> NewStageChannel_to_payload sample_externals
       (NewStageChannel (NewGuildChannel 4 ''stage'' 0 ChannelType_stage_voice None None)
          None None None None)
     = Inr [(''id'', JInt 4), (''name'', JStr ''stage''), (''type'', JInt 13)]
   \<and> NewForum_to_payload sample_externals
       (NewForum (NewGuildChannel 6 ''help'' 0 ChannelType_text None None)
          None None None None None None None None None)
     = Inr [(''id'', JInt 6), (''name'', JStr ''help''), (''type'', JInt 0)]
   \<and> NewGuild_to_payload sample_externals
       (NewGuild_init ''Test'' None None None None None None)
     = Inr [(''name'', JStr ''Test'')]"
proof -
  let ?role = "\<lparr>NewRole.id = 5, name = None, permissions = None, colour = None, hoist = None,
                 mentionable = None\<rparr>"
  let ?ch = "Category (NewGuildChannel 1 ''General'' 0 ChannelType_category None None)"
  let ?tc = "NewTextChannel (NewGuildChannel 2 ''chat'' 0 ChannelType_text None None)
               None None None None None"
  let ?vc = "NewVoiceChannel (NewGuildChannel 3 ''talk'' 0 ChannelType_voice None None)
               None None None None"
  let ?sc = "NewStageChannel (NewGuildChannel 4 ''stage'' 0 ChannelType_stage_voice None None)
               None None None None"
  let ?fc = "NewForum (NewGuildChannel 6 ''help'' 0 ChannelType_text None None)
               None None None None None None None None None"
  let ?g = "NewGuild_init ''Test'' None None None None None None"
  have r: "NewRole_to_payload sample_externals ?role = [(''id'', JInt 5), (''color'', JInt 0)]"
    by (simp add: NewRole_to_payload_def sample_externals_def)
  have c: "channel_to_payload sample_externals ?ch
             = Inr [(''id'', JInt 1), (''name'', JStr ''General''), (''type'', JInt 4)]"
    by (simp add: NewGuildChannel_to_payload_def sample_externals_def)
  have t: "NewTextChannel_to_payload sample_externals ?tc
             = Inr [(''id'', JInt 2), (''name'', JStr ''chat''), (''type'', JInt 0)]"
    by (simp add: NewTextChannel_to_payload_def NewGuildChannel_to_payload_def
          sample_externals_def)
  have v: "NewVoiceChannel_to_payload sample_externals ?vc
             = Inr [(''id'', JInt 3), (''name'', JStr ''talk''), (''type'', JInt 2)]"
    by (simp add: NewVoiceChannel_to_payload_def NewGuildChannel_to_payload_def
          sample_externals_def)
  have s: "NewStageChannel_to_payload sample_externals ?sc
             = Inr [(''id'', JInt 4), (''name'', JStr ''stage''), (''type'', JInt 13)]"
    by (simp add: NewStageChannel_to_payload_def NewGuildChannel_to_payload_def
          sample_externals_def)
  have f: "NewForum_to_payload sample_externals ?fc
             = Inr [(''id'', JInt 6), (''name'', JStr ''help''), (''type'', JInt 0)]"
    by (simp add: NewForum_to_payload_def NewGuildChannel_to_payload_def
          sample_externals_def)
  have g: "NewGuild_to_payload sample_externals ?g = Inr [(''name'', JStr ''Test'')]"
    by (simp add: NewGuild_to_payload_def NewGuild_init_def)
  note general = unset_attributes_are_omitted
    [where role = ?role and ext = sample_externals and ch = ?ch and tc = ?tc and vc = ?vc
       and sc = ?sc and fc = ?fc and g = ?g,
     of "[(''id'', JInt 1), (''name'', JStr ''General''), (''type'', JInt 4)]"
        "[(''id'', JInt 2), (''name'', JStr ''chat''), (''type'', JInt 0)]"]
  from general r c t v s f g show ?thesis
    by simp
qed

section \<open>The AFK and system channel references (C6)\<close>



section \<open>A temp id of zero (C10)\<close>

text \<open>
  C10: the temp id of a role and of a channel lies in the inclusive range
  \<open>[0, 999999999999]\<close>, so it can be 0. When the draw for a voice channel added with
  \<open>is_afk_channel=True\<close> gives 0, the graph records \<open>afk_channel_id = 0\<close>, its \<open>channels\<close>
  list is non-empty, and yet every document it serializes to lacks the \<open>afk_channel_id\<close>
  key, since the serializer tests the recorded id for truth. The same holds for a text
  channel added with \<open>is_system_channel=True\<close> and the \<open>system_channel_id\<close> key.
\<close>

theorem zero_temp_id_hides_special_channel:
  "0 \<le> NewRole.id (fst (NewRole_init nm p col h m r))
   \<and> NewRole.id (fst (NewRole_init nm p col h m r)) \<le> 999999999999
   \<and> 0 \<le> NewGuildChannel.id (fst (NewGuildChannel_init n t c ow ref r))
   \<and> NewGuildChannel.id (fst (NewGuildChannel_init n t c ow ref r)) \<le> 999999999999
   \<and> (r 0 mod 1000000000000 = 0 \<longrightarrow>
        NewGuildChannel.id (NewVoiceChannel.base
          (fst (NewGuild_add_voice_channel ref n c b u rr v ow True g r))) = 0
      \<and> afk_channel_id (fst (snd (NewGuild_add_voice_channel ref n c b u rr v ow True g r)))
          = Some 0
      \<and> channels (fst (snd (NewGuild_add_voice_channel ref n c b u rr v ow True g r))) \<noteq> []
      \<and> (NewGuild_to_payload ext
            (fst (snd (NewGuild_add_voice_channel ref n c b u rr v ow True g r))) = Inr doc
          \<longrightarrow> map_of doc ''afk_channel_id'' = None))
   \<and> (r 0 mod 1000000000000 = 0 \<longrightarrow>
        NewGuildChannel.id (NewTextChannel.base
          (fst (NewGuild_add_text_channel ref n c tp s f ow a d True g r))) = 0
      \<and> system_channel_id
          (fst (snd (NewGuild_add_text_channel ref n c tp s f ow a d True g r))) = Some 0
      \<and> channels (fst (snd (NewGuild_add_text_channel ref n c tp s f ow a d True g r))) \<noteq> []
      \<and> (NewGuild_to_payload ext
            (fst (snd (NewGuild_add_text_channel ref n c tp s f ow a d True g r))) = Inr doc'
          \<longrightarrow> map_of doc' ''system_channel_id'' = None))"
proof -
  have range: "0 \<le> fst (randint 0 999999999999 r) \<and> fst (randint 0 999999999999 r) \<le> 999999999999"
    by (rule randint_range) simp
  have zero: "r 0 mod 1000000000000 = 0 \<Longrightarrow> fst (randint 0 999999999999 r) = 0"
    by (simp add: randint_def)
  have afk: "map_of doc ''afk_channel_id'' = None"
    if "r 0 mod 1000000000000 = 0"
      and "NewGuild_to_payload ext
             (fst (snd (NewGuild_add_voice_channel ref n c b u rr v ow True g r))) = Inr doc"
    using guild_special_channel_keys(1) [OF that(2)] zero [OF that(1)]
    by (simp add: add_voice_channel_effect)
  have sys: "map_of doc' ''system_channel_id'' = None"
    if "r 0 mod 1000000000000 = 0"
      and "NewGuild_to_payload ext
             (fst (snd (NewGuild_add_text_channel ref n c tp s f ow a d True g r))) = Inr doc'"
    using guild_special_channel_keys(2) [OF that(2)] zero [OF that(1)]
    by (simp add: add_text_channel_effect)
  show ?thesis
    using range zero afk sys
    by (simp add: NewRole_init_fields channel_init_id add_voice_channel_effect
          add_text_channel_effect)
qed

theorem zero_temp_id_hides_special_channel_witness:
  "(\<lambda>n. 0 :: int) 0 mod 1000000000000 = 0
   \<and> NewGuild_to_payload sample_externals
        (fst (snd (NewGuild_add_voice_channel 0 ''AFK'' None None None None None None True
                     (NewGuild_init ''Test'' None None None None None None) (\<lambda>n. 0))))
       = Inr [(''name'', JStr ''Test''),
              (''channels'',
               JList [JDict [(''id'', JInt 0), (''name'', JStr ''AFK''), (''type'', JInt 2)]])]
   \<and> afk_channel_id
        (fst (snd (NewGuild_add_voice_channel 0 ''AFK'' None None None None None None True
                     (NewGuild_init ''Test'' None None None None None None) (\<lambda>n. 0))))
       = Some 0
   \<and> NewGuild_to_payload sample_externals
        (fst (snd (NewGuild_add_text_channel 0 ''chat'' None None None None None None None True
                     (NewGuild_init ''Test'' None None None None None None) (\<lambda>n. 0))))
       = Inr [(''name'', JStr ''Test''),
              (''channels'',
               JList [JDict [(''id'', JInt 0), (''name'', JStr ''chat''), (''type'', JInt 0)]])]
   \<and> system_channel_id
        (fst (snd (NewGuild_add_text_channel 0 ''chat'' None None None None None None None True
                     (NewGuild_init ''Test'' None None None None None None) (\<lambda>n. 0))))
       = Some 0"
proof -
  let ?g0 = "NewGuild_init ''Test'' None None None None None None"
  let ?gv = "fst (snd (NewGuild_add_voice_channel 0 ''AFK'' None None None None None None True
                         ?g0 (\<lambda>n. 0)))"
  let ?gt = "fst (snd (NewGuild_add_text_channel 0 ''chat'' None None None None None None None
                         True ?g0 (\<lambda>n. 0)))"
  have draw: "(\<lambda>n. 0 :: int) 0 mod 1000000000000 = 0"
    by simp
  have dv: "NewGuild_to_payload sample_externals ?gv
       = Inr [(''name'', JStr ''Test''),
              (''channels'',
               JList [JDict [(''id'', JInt 0), (''name'', JStr ''AFK''), (''type'', JInt 2)]])]"
    by (simp add: NewGuild_add_voice_channel_def NewVoiceChannel_init_def
          NewGuildChannel_init_def randint_def NewGuild_init_def NewGuild_to_payload_def
          NewVoiceChannel_to_payload_def NewGuildChannel_to_payload_def sample_externals_def)
  have dt: "NewGuild_to_payload sample_externals ?gt
       = Inr [(''name'', JStr ''Test''),
              (''channels'',
               JList [JDict [(''id'', JInt 0), (''name'', JStr ''chat''), (''type'', JInt 0)]])]"
    by (simp add: NewGuild_add_text_channel_def NewTextChannel_init_def
          NewGuildChannel_init_def randint_def NewGuild_init_def NewGuild_to_payload_def
          NewTextChannel_to_payload_def NewGuildChannel_to_payload_def sample_externals_def)
  note general = zero_temp_id_hides_special_channel
    [where r = "\<lambda>n. 0" and g = ?g0 and ext = sample_externals and ref = 0
       and n = "''AFK''" and c = None and b = None and u = None and rr = None and v = None
       and ow = None]
  note general' = zero_temp_id_hides_special_channel
    [where r = "\<lambda>n. 0" and g = ?g0 and ext = sample_externals and ref = 0
       and n = "''chat''" and c = None and tp = None and s = None and f = None and a = None
       and d = None and ow = None]
  from general general' draw dv dt show ?thesis
    by simp
qed

section \<open>The convenience operations of a category (C9)\<close>

text \<open>
  C9: for every category and all arguments, each convenience operation of the category
  (\<open>add_text_channel\<close>, \<open>add_voice_channel\<close>, \<open>add_stage_channel\<close>, \<open>add_forum\<close>) returns
  the entity, and leaves the store of graphs and the random source, that the same
  operation of the owning graph (the graph \<open>self.guild\<close> refers to) gives when it is run
  on that graph's state with the category as parent: only the owning graph changes, and
  the new channel's parent is the category. A category created by a graph's
  \<open>add_category\<close> is owned by that graph.
\<close>

theorem category_operations_delegate:
  "NewCategory_add_text_channel cat n t s f ow a d sys st r =
     (let (ch, g', r') = NewGuild_add_text_channel (NewGuildChannel.guild cat) n (Some cat)
                           t s f ow a d sys (st (NewGuildChannel.guild cat)) r
      in (ch, st(NewGuildChannel.guild cat := g'), r'))
   \<and> NewCategory_add_voice_channel cat n b u rr v ow afk st r =
     (let (ch, g', r') = NewGuild_add_voice_channel (NewGuildChannel.guild cat) n (Some cat)
                           b u rr v ow afk (st (NewGuildChannel.guild cat)) r
      in (ch, st(NewGuildChannel.guild cat := g'), r'))
   \<and> NewCategory_add_stage_channel cat n b u rr v ow st r =
     (let (ch, g', r') = NewGuild_add_stage_channel (NewGuildChannel.guild cat) n (Some cat)
                           b u rr v ow (st (NewGuildChannel.guild cat)) r
      in (ch, st(NewGuildChannel.guild cat := g'), r'))
   \<and> NewCategory_add_forum cat n t s f ow a d so em l tags st r =
     (let (ch, g', r') = NewGuild_add_forum (NewGuildChannel.guild cat) n t (Some cat)
                           s f ow a d so em l tags (st (NewGuildChannel.guild cat)) r
      in (ch, st(NewGuildChannel.guild cat := g'), r'))
   \<and> NewGuildChannel.guild (fst (NewGuild_add_category ref cn cow g r)) = ref
   \<and> category (NewTextChannel.base
        (fst (NewCategory_add_text_channel cat n t s f ow a d sys st r))) = Some cat
   \<and> category (NewVoiceChannel.base
        (fst (NewCategory_add_voice_channel cat n b u rr v ow afk st r))) = Some cat
   \<and> category (NewStageChannel.base
        (fst (NewCategory_add_stage_channel cat n b u rr v ow st r))) = Some cat
   \<and> category (NewForum.base
        (fst (NewCategory_add_forum cat n t s f ow a d so em l tags st r))) = Some cat"
  by (simp add: NewCategory_add_text_channel_def NewCategory_add_voice_channel_def
        NewCategory_add_stage_channel_def NewCategory_add_forum_def call_method_def
        add_category_guild split_beta Let_def
        NewGuild_add_text_channel_def NewTextChannel_init_def
        NewGuild_add_voice_channel_def NewVoiceChannel_init_def
        NewGuild_add_stage_channel_def NewStageChannel_init_def
        NewGuild_add_forum_def NewForum_init_def NewGuildChannel_init_def)

end
